theory Spec2Isabelle
  imports Main "HOL-Library.Sublist"
begin

section \<open>The platform the orchestrator runs on\<close>

text \<open>
  \<^verbatim>\<open>internal/git/operations.go\<close> is straight-line code over a few services of the Go
  runtime: \<^verbatim>\<open>filepath.Join\<close>, \<^verbatim>\<open>os.Stat\<close>, \<^verbatim>\<open>os.Remove\<close>, \<^verbatim>\<open>os.Getenv\<close> and the
  \<^verbatim>\<open>os/exec\<close> package.  None of them is code of the repository, so they are taken as a
  parameter: a record of functions over an arbitrary type \<open>'w\<close> of states of the outside
  world (file system, repository, network).  The \<^verbatim>\<open>context.Context\<close> that every operation
  passes to \<^verbatim>\<open>exec.CommandContext\<close> is part of that world: a cancelled context is a
  command that fails.

  An \<^verbatim>\<open>error\<close> of Go is modelled by its message (\<^verbatim>\<open>err.Error()\<close>), \<open>None\<close> being \<^verbatim>\<open>nil\<close>;
  \<^verbatim>\<open>fmt.Errorf("...: %w", err)\<close> is then concatenation.
\<close>

type_synonym error = "string option"

text \<open>
  The three outcomes of \<^verbatim>\<open>os.Stat\<close> the code tells apart: \<^verbatim>\<open>err == nil\<close>,
  \<^verbatim>\<open>os.IsNotExist(err)\<close>, and any other error.
\<close>

datatype stat_result = StatOk | StatNotExist | StatError

text \<open>
  One run of an external process: the error of \<^verbatim>\<open>Run\<close> / \<^verbatim>\<open>Output\<close> /
  \<^verbatim>\<open>CombinedOutput\<close>, the bytes of standard output (what \<^verbatim>\<open>Output\<close> returns) and the
  bytes of standard output and standard error together (what \<^verbatim>\<open>CombinedOutput\<close> returns).
\<close>

record proc_result =
  exit_err :: error
  stdout :: string
  combined :: string

record 'w platform =
  filepath_Join :: "string list \<Rightarrow> string"
  os_Stat :: "'w \<Rightarrow> string \<Rightarrow> stat_result"
  os_Remove :: "'w \<Rightarrow> string \<Rightarrow> error \<times> 'w"
  os_Getenv :: "string \<Rightarrow> string"
  exec_Command :: "'w \<Rightarrow> string \<Rightarrow> string \<Rightarrow> string list \<Rightarrow> proc_result \<times> 'w"

text \<open>
  \<open>exec_Command p w dir name args\<close> runs \<open>name args\<close> with \<^verbatim>\<open>cmd.Dir = dir\<close> in the world
  \<open>w\<close> and gives the outcome and the world the process leaves.  The environment of the
  orchestrator's own process is never written by the code and cannot be written by a child
  process, so \<open>os_Getenv\<close> does not depend on the world; as in Go it gives the empty string
  for an unset variable.
\<close>

section \<open>What an operation is observed to do\<close>

text \<open>
  Modelled from the spec: the package \<^verbatim>\<open>internal/log\<close> is imported and missing from the
  sources; the spec says that every operation logs a start marker, a success or an error
  marker and the command it invokes.  What a logger method prints is not modelled: a call
  of one is recorded as an event with the method, the format (for \<^verbatim>\<open>Command\<close> the
  program name) and the arguments.  Every call of the platform that can change or observe
  the world is recorded too, with its outcome.  An operation returns its result, the world
  it leaves and the events it produced, in order.
\<close>

datatype level = Warning | Error | Success | Step | Info | Debug | Command

datatype event =
    Log level string "string list"
  | Stat string stat_result
  | Remove string error
  | Exec string string "string list" proc_result

text \<open>
  The struct \<^verbatim>\<open>Operations\<close>; in place of the logger, the flag \<^verbatim>\<open>NewOperations\<close> makes
  it with.
\<close>

record Operations =
  workingDir :: string
  debug :: bool

definition NewOperations :: "string \<Rightarrow> bool \<Rightarrow> Operations" where
  "NewOperations dir dbg = \<lparr>workingDir = dir, debug = dbg\<rparr>"

section \<open>The operations\<close>

definition lockFiles :: "'w platform \<Rightarrow> Operations \<Rightarrow> string list" where
  "lockFiles p ops = [filepath_Join p [workingDir ops, ''.git'', ''index.lock''],
                    filepath_Join p [workingDir ops, ''.git'', ''HEAD.lock'']]"

text \<open>The loop of \<^verbatim>\<open>cleanupLocks\<close> over the lock files.\<close>

fun cleanupLocks_loop :: "'w platform \<Rightarrow> string list \<Rightarrow> 'w \<Rightarrow> error \<times> 'w \<times> event list" where
  "cleanupLocks_loop p [] w = (None, w, [])"
| "cleanupLocks_loop p (lockFile # rest) w =
     (case os_Stat p w lockFile of
        StatOk \<Rightarrow>
          (case os_Remove p w lockFile of
             (Some err, w1) \<Rightarrow>
               (Some (''failed to remove lock file '' @ lockFile @ '': '' @ err), w1,
                [Stat lockFile StatOk,
                 Log Warning ''Found stale lock file: %s'' [lockFile],
                 Remove lockFile (Some err),
                 Log Error ''Failed to remove lock file: %s'' [lockFile]])
           | (None, w1) \<Rightarrow>
               (case cleanupLocks_loop p rest w1 of
                  (res, w2, ev) \<Rightarrow>
                    (res, w2,
                     [Stat lockFile StatOk,
                      Log Warning ''Found stale lock file: %s'' [lockFile],
                      Remove lockFile None,
                      Log Success ''Removed stale lock file: %s'' [lockFile]] @ ev)))
      | st \<Rightarrow>
          (case cleanupLocks_loop p rest w of
             (res, w2, ev) \<Rightarrow> (res, w2, Stat lockFile st # ev)))"

definition cleanupLocks :: "'w platform \<Rightarrow> Operations \<Rightarrow> 'w \<Rightarrow> error \<times> 'w \<times> event list" where
  "cleanupLocks p ops w = cleanupLocks_loop p (lockFiles p ops) w"

definition runCommand ::
  "'w platform \<Rightarrow> Operations \<Rightarrow> string \<Rightarrow> string list \<Rightarrow> 'w \<Rightarrow> error \<times> 'w \<times> event list" where
  "runCommand p ops name args w =
     (case (if name = ''git'' then cleanupLocks p ops w else (None, w, [])) of
        (Some err, w1, ev) \<Rightarrow> (Some err, w1, ev)
      | (None, w1, ev) \<Rightarrow>
          (case exec_Command p w1 (workingDir ops) name args of
             (r, w2) \<Rightarrow>
               (case exit_err r of
                  Some err \<Rightarrow>
                    (Some (err @ '': '' @ combined r), w2,
                     ev @ [Log Command name args,
                           Exec (workingDir ops) name args r,
                           Log Debug ''Command output: %s'' [combined r]])
                | None \<Rightarrow>
                    (None, w2,
                     ev @ [Log Command name args, Exec (workingDir ops) name args r]))))"

definition configureGitUser :: "'w platform \<Rightarrow> Operations \<Rightarrow> 'w \<Rightarrow> error \<times> 'w \<times> event list" where
  "configureGitUser p ops w =
     (case exec_Command p w (workingDir ops) ''git''
             [''config'', ''--global'', ''user.name'', os_Getenv p ''GITHUB_USERNAME''] of
        (r, w1) \<Rightarrow>
          (case exit_err r of
             Some err \<Rightarrow>
               (Some (''failed to set git user.name: '' @ err), w1,
                [Log Step ''Configuring git user...'' [],
                 Exec (workingDir ops) ''git''
                   [''config'', ''--global'', ''user.name'', os_Getenv p ''GITHUB_USERNAME''] r,
                 Log Error ''Failed to set git username'' []])
           | None \<Rightarrow>
               (None, w1,
                [Log Step ''Configuring git user...'' [],
                 Exec (workingDir ops) ''git''
                   [''config'', ''--global'', ''user.name'', os_Getenv p ''GITHUB_USERNAME''] r,
                 Log Success ''Git user configured'' []])))"

text \<open>
  \<^verbatim>\<open>EnsureGitSetup\<close> in its three steps, each continuing with the world and the events
  of the step before: the repository, the committer identity, the remote.
\<close>

definition remoteURL :: "'w platform \<Rightarrow> string \<Rightarrow> string" where
  "remoteURL p repoName =
     ''https://github.com/'' @ os_Getenv p ''GITHUB_USERNAME'' @ ''/'' @ repoName @ ''.git''"

definition ensureRemote ::
  "'w platform \<Rightarrow> Operations \<Rightarrow> string \<Rightarrow> 'w \<Rightarrow> error \<times> 'w \<times> event list" where
  "ensureRemote p ops repoName w =
     (case exec_Command p w (workingDir ops) ''git'' [''remote'', ''get-url'', ''origin''] of
        (r, w1) \<Rightarrow>
          (case exit_err r of
             Some _ \<Rightarrow>
               (case runCommand p ops ''git''
                       [''remote'', ''add'', ''origin'', remoteURL p repoName] w1 of
                  (Some err, w2, ev) \<Rightarrow>
                    (Some (''failed to add remote origin: '' @ err), w2,
                     [Log Step ''Checking remote configuration...'' [],
                      Exec (workingDir ops) ''git'' [''remote'', ''get-url'', ''origin''] r,
                      Log Step ''Adding remote origin: %s'' [remoteURL p repoName]]
                     @ ev @ [Log Error ''Failed to add remote origin'' []])
                | (None, w2, ev) \<Rightarrow>
                    (None, w2,
                     [Log Step ''Checking remote configuration...'' [],
                      Exec (workingDir ops) ''git'' [''remote'', ''get-url'', ''origin''] r,
                      Log Step ''Adding remote origin: %s'' [remoteURL p repoName]]
                     @ ev @ [Log Success ''Remote origin added'' []]))
           | None \<Rightarrow>
               (None, w1,
                [Log Step ''Checking remote configuration...'' [],
                 Exec (workingDir ops) ''git'' [''remote'', ''get-url'', ''origin''] r,
                 Log Info ''Remote origin already configured'' []])))"

definition ensureIdentityAndRemote ::
  "'w platform \<Rightarrow> Operations \<Rightarrow> string \<Rightarrow> 'w \<Rightarrow> error \<times> 'w \<times> event list" where
  "ensureIdentityAndRemote p ops repoName w =
     (case configureGitUser p ops w of
        (Some err, w1, ev) \<Rightarrow> (Some err, w1, ev)
      | (None, w1, ev) \<Rightarrow>
          (case ensureRemote p ops repoName w1 of
             (res, w2, ev') \<Rightarrow> (res, w2, ev @ ev')))"

definition gitDir :: "'w platform \<Rightarrow> Operations \<Rightarrow> string" where
  "gitDir p ops = filepath_Join p [workingDir ops, ''.git'']"

definition EnsureGitSetup ::
  "'w platform \<Rightarrow> Operations \<Rightarrow> string \<Rightarrow> 'w \<Rightarrow> error \<times> 'w \<times> event list" where
  "EnsureGitSetup p ops repoName w =
     (case os_Stat p w (gitDir p ops) of
        StatNotExist \<Rightarrow>
          (case runCommand p ops ''git'' [''init''] w of
             (Some err, w1, ev) \<Rightarrow>
               (Some (''failed to initialize git repository: '' @ err), w1,
                [Stat (gitDir p ops) StatNotExist,
                 Log Step ''Initializing git repository...'' []]
                @ ev @ [Log Error ''Failed to initialize git repository'' []])
           | (None, w1, ev) \<Rightarrow>
               (case ensureIdentityAndRemote p ops repoName w1 of
                  (res, w2, ev') \<Rightarrow>
                    (res, w2,
                     [Stat (gitDir p ops) StatNotExist,
                      Log Step ''Initializing git repository...'' []]
                     @ ev @ [Log Success ''Git repository initialized'' []] @ ev')))
      | st \<Rightarrow>
          (case ensureIdentityAndRemote p ops repoName w of
             (res, w2, ev') \<Rightarrow>
               (res, w2,
                [Stat (gitDir p ops) st, Log Info ''Git repository already initialized'' []]
                @ ev')))"

text \<open>
  \<^verbatim>\<open>GetDiff\<close> returns a text and an error, as the Go function does.  \<^verbatim>\<open>cmd.Output()\<close>
  gives the bytes of standard output whether or not the process failed.
\<close>

definition GetDiff :: "'w platform \<Rightarrow> Operations \<Rightarrow> 'w \<Rightarrow> (string \<times> error) \<times> 'w \<times> event list" where
  "GetDiff p ops w =
     (case exec_Command p w (workingDir ops) ''git'' [''diff'', ''--cached''] of
        (r1, w1) \<Rightarrow>
          (case exit_err r1 of
             Some _ \<Rightarrow>
               (case exec_Command p w1 (workingDir ops) ''git'' [''diff''] of
                  (r2, w2) \<Rightarrow>
                    (case exit_err r2 of
                       Some err \<Rightarrow>
                         (('''', Some (''failed to get diff: '' @ err)), w2,
                          [Log Step ''Getting changes...'' [],
                           Exec (workingDir ops) ''git'' [''diff'', ''--cached''] r1,
                           Log Debug ''No staged changes, checking unstaged changes...'' [],
                           Exec (workingDir ops) ''git'' [''diff''] r2,
                           Log Error ''Failed to get changes'' []])
                     | None \<Rightarrow>
                         ((stdout r2, None), w2,
                          [Log Step ''Getting changes...'' [],
                           Exec (workingDir ops) ''git'' [''diff'', ''--cached''] r1,
                           Log Debug ''No staged changes, checking unstaged changes...'' [],
                           Exec (workingDir ops) ''git'' [''diff''] r2,
                           if length (stdout r2) = 0
                           then Log Warning ''No changes detected'' []
                           else Log Success ''Changes detected'' []])))
           | None \<Rightarrow>
               ((stdout r1, None), w1,
                [Log Step ''Getting changes...'' [],
                 Exec (workingDir ops) ''git'' [''diff'', ''--cached''] r1,
                 if length (stdout r1) = 0
                 then Log Warning ''No changes detected'' []
                 else Log Success ''Changes detected'' []])))"

text \<open>
  \<^verbatim>\<open>StageAll\<close>: its last part, the check with \<^verbatim>\<open>git status --porcelain\<close>, comes after
  either staging command and is written once.
\<close>

definition verifyStaged :: "'w platform \<Rightarrow> Operations \<Rightarrow> 'w \<Rightarrow> error \<times> 'w \<times> event list" where
  "verifyStaged p ops w =
     (case exec_Command p w (workingDir ops) ''git'' [''status'', ''--porcelain''] of
        (r, w1) \<Rightarrow>
          (case exit_err r of
             Some err \<Rightarrow>
               (Some (''failed to check git status: '' @ err), w1,
                [Exec (workingDir ops) ''git'' [''status'', ''--porcelain''] r,
                 Log Error ''Failed to check git status'' []])
           | None \<Rightarrow>
               if length (stdout r) = 0
               then (Some ''no changes to commit'', w1,
                     [Exec (workingDir ops) ''git'' [''status'', ''--porcelain''] r,
                      Log Warning ''No changes to stage'' []])
               else (None, w1,
                     [Exec (workingDir ops) ''git'' [''status'', ''--porcelain''] r,
                      Log Success ''Changes staged'' [],
                      Log Debug ''Staged files:\<newline>%s'' [stdout r]])))"

definition StageAll :: "'w platform \<Rightarrow> Operations \<Rightarrow> 'w \<Rightarrow> error \<times> 'w \<times> event list" where
  "StageAll p ops w =
     (case runCommand p ops ''git'' [''add'', ''-A''] w of
        (Some _, w1, ev1) \<Rightarrow>
          (case runCommand p ops ''git'' [''add'', workingDir ops] w1 of
             (Some err, w2, ev2) \<Rightarrow>
               (Some (''failed to stage files: '' @ err), w2,
                [Log Step ''Staging all changes...'' []] @ ev1
                @ [Log Warning ''Failed to stage with -A flag, trying alternative method...'' []]
                @ ev2 @ [Log Error ''Failed to stage changes'' []])
           | (None, w2, ev2) \<Rightarrow>
               (case verifyStaged p ops w2 of
                  (res, w3, ev3) \<Rightarrow>
                    (res, w3,
                     [Log Step ''Staging all changes...'' []] @ ev1
                     @ [Log Warning ''Failed to stage with -A flag, trying alternative method...'' []]
                     @ ev2 @ ev3)))
      | (None, w1, ev1) \<Rightarrow>
          (case verifyStaged p ops w1 of
             (res, w2, ev2) \<Rightarrow>
               (res, w2, [Log Step ''Staging all changes...'' []] @ ev1 @ ev2)))"

definition Commit :: "'w platform \<Rightarrow> Operations \<Rightarrow> string \<Rightarrow> 'w \<Rightarrow> error \<times> 'w \<times> event list" where
  "Commit p ops message w =
     (case runCommand p ops ''git'' [''commit'', ''-m'', message] w of
        (Some err, w1, ev) \<Rightarrow>
          (Some (''failed to commit: '' @ err), w1,
           [Log Step ''Committing changes...'' []] @ ev
           @ [Log Error ''Failed to commit changes'' []])
      | (None, w1, ev) \<Rightarrow>
          (None, w1,
           [Log Step ''Committing changes...'' []] @ ev
           @ [Log Success ''Changes committed'' []]))"

definition Push ::
  "'w platform \<Rightarrow> Operations \<Rightarrow> string \<Rightarrow> string \<Rightarrow> 'w \<Rightarrow> error \<times> 'w \<times> event list" where
  "Push p ops remote0 branch0 w =
     (let remote = (if remote0 = '''' then ''origin'' else remote0);
          branch = (if branch0 = '''' then ''main'' else branch0)
      in case runCommand p ops ''git'' [''push'', ''-u'', remote, branch] w of
           (Some err, w1, ev) \<Rightarrow>
             (Some (''failed to push: '' @ err), w1,
              [Log Step ''Pushing to %s/%s...'' [remote, branch]] @ ev
              @ [Log Error ''Failed to push changes'' []])
         | (None, w1, ev) \<Rightarrow>
             (None, w1,
              [Log Step ''Pushing to %s/%s...'' [remote, branch]] @ ev
              @ [Log Success ''Changes pushed successfully'' []]))"

section \<open>Reading the events\<close>

text \<open>The external commands run, in order: program and arguments.\<close>

fun commands :: "event list \<Rightarrow> (string \<times> string list) list" where
  "commands [] = []"
| "commands (Exec dir name args r # es) = (name, args) # commands es"
| "commands (e # es) = commands es"

text \<open>
  The same with the working directory and the outcome of each command, and the commands
  with whether each succeeded.
\<close>

fun execs :: "event list \<Rightarrow> (string \<times> string \<times> string list \<times> proc_result) list" where
  "execs [] = []"
| "execs (Exec dir name args r # es) = (dir, name, args, r) # execs es"
| "execs (e # es) = execs es"

fun outcomes :: "event list \<Rightarrow> (string list \<times> bool) list" where
  "outcomes [] = []"
| "outcomes (Exec dir name args r # es) = (args, exit_err r = None) # outcomes es"
| "outcomes (e # es) = outcomes es"

text \<open>The lock files that \<^verbatim>\<open>os.Remove\<close> failed to remove.\<close>

fun lock_failures :: "event list \<Rightarrow> string list" where
  "lock_failures [] = []"
| "lock_failures (Remove f (Some e) # es) = f # lock_failures es"
| "lock_failures (e # es) = lock_failures es"

text \<open>
  The commands that change the repository: \<^verbatim>\<open>init\<close>, \<^verbatim>\<open>remote add\<close>, \<^verbatim>\<open>add\<close>,
  \<^verbatim>\<open>commit\<close> and \<^verbatim>\<open>push\<close>.
\<close>

definition mutating :: "string list \<Rightarrow> bool" where
  "mutating args =
     (take 1 args = [''init''] \<or> take 2 args = [''remote'', ''add''] \<or>
      take 1 args = [''add''] \<or> take 1 args = [''commit''] \<or> take 1 args = [''push''])"

fun is_Log :: "event \<Rightarrow> bool" where
  "is_Log (Log l f as) = True"
| "is_Log e = False"

text \<open>
  A history is the list of the events so far, the latest first.  \<open>lock_cleared f h\<close>
  reads one finished check of the lock file \<open>f\<close> off the history \<open>h\<close>: either
  \<^verbatim>\<open>os.Stat\<close> did not find \<open>f\<close>, or it found it and \<^verbatim>\<open>os.Remove\<close> then removed it.
  It gives the history before the check.
\<close>

fun lock_cleared :: "string \<Rightarrow> event list \<Rightarrow> event list option" where
  "lock_cleared f (Remove f1 None # Stat f2 StatOk # h) =
     (if f1 = f \<and> f2 = f then Some h else None)"
| "lock_cleared f (Stat f1 StatNotExist # h) = (if f1 = f then Some h else None)"
| "lock_cleared f (Stat f1 StatError # h) = (if f1 = f then Some h else None)"
| "lock_cleared f h = None"

text \<open>\<open>locks_cleared fs h\<close>: the history ends with a finished check of each file of
  \<open>fs\<close>, the last file of the code's list checked last (\<open>fs\<close> is that list reversed).\<close>

fun locks_cleared :: "string list \<Rightarrow> event list \<Rightarrow> bool" where
  "locks_cleared [] h = True"
| "locks_cleared (f # fs) h =
     (case lock_cleared f h of None \<Rightarrow> False | Some h' \<Rightarrow> locks_cleared fs h')"

text \<open>
  \<open>guarded lf hist es\<close>: in the run \<open>es\<close> after the history \<open>hist\<close>, every mutating
  \<^verbatim>\<open>git\<close> command comes directly (log calls apart) after a finished check of all the
  lock files \<open>lf\<close>.
\<close>

fun guarded :: "string list \<Rightarrow> event list \<Rightarrow> event list \<Rightarrow> bool" where
  "guarded lf hist [] = True"
| "guarded lf hist (Exec dir name args r # es) =
     ((name = ''git'' \<and> mutating args \<longrightarrow>
         locks_cleared (rev lf) (filter (\<lambda>e. \<not> is_Log e) hist))
      \<and> guarded lf (Exec dir name args r # hist) es)"
| "guarded lf hist (e # es) = guarded lf (e # hist) es"

section \<open>The steps of an operation, on the platform alone\<close>

text \<open>
  The claims speak of what is done to the repository.  The definitions of this section
  say it with the calls of the platform alone, in the words of the spec and with no
  event: they are what the operations, translated from the source above, are compared
  with.  \<open>ends\<close> is the result and the world an operation ends with.
\<close>

abbreviation ends :: "'a \<times> 'w \<times> event list \<Rightarrow> 'a \<times> 'w" where
  "ends x \<equiv> (fst x, fst (snd x))"

text \<open>A lock file is looked for, and removed when it is found.\<close>

definition remove_if_found :: "'w platform \<Rightarrow> string \<Rightarrow> 'w \<Rightarrow> error \<times> 'w" where
  "remove_if_found p f w = (if os_Stat p w f = StatOk then os_Remove p w f else (None, w))"

text \<open>
  The stale lock cleanup: \<^verbatim>\<open>.git/index.lock\<close>, then \<^verbatim>\<open>.git/HEAD.lock\<close>; the first
  removal that fails ends it with an error that names the file.
\<close>

definition clear_locks :: "'w platform \<Rightarrow> Operations \<Rightarrow> 'w \<Rightarrow> error \<times> 'w" where
  "clear_locks p ops w =
     (case remove_if_found p (filepath_Join p [workingDir ops, ''.git'', ''index.lock'']) w of
        (Some e, w1) \<Rightarrow>
          (Some (''failed to remove lock file ''
                 @ filepath_Join p [workingDir ops, ''.git'', ''index.lock''] @ '': '' @ e), w1)
      | (None, w1) \<Rightarrow>
          (case remove_if_found p (filepath_Join p [workingDir ops, ''.git'', ''HEAD.lock'']) w1 of
             (Some e, w2) \<Rightarrow>
               (Some (''failed to remove lock file ''
                      @ filepath_Join p [workingDir ops, ''.git'', ''HEAD.lock''] @ '': '' @ e), w2)
           | (None, w2) \<Rightarrow> (None, w2)))"

text \<open>
  One attempt at a \<^verbatim>\<open>git\<close> command that changes the repository: the cleanup, and only
  when it has not failed the command, started in the world the cleanup leaves.  It gives
  the error, the world left, and the command started with its outcome (none when the
  cleanup failed).
\<close>

definition attempt ::
  "'w platform \<Rightarrow> Operations \<Rightarrow> string list \<Rightarrow> 'w
     \<Rightarrow> error \<times> 'w \<times> (string \<times> string \<times> string list \<times> proc_result) list" where
  "attempt p ops args w =
     (case clear_locks p ops w of
        (Some err, w1) \<Rightarrow> (Some err, w1, [])
      | (None, w1) \<Rightarrow>
          (case exec_Command p w1 (workingDir ops) ''git'' args of
             (r, w2) \<Rightarrow>
               (map_option (\<lambda>e. e @ '': '' @ combined r) (exit_err r), w2,
                [(workingDir ops, ''git'', args, r)])))"

text \<open>
  The first step of \<^verbatim>\<open>EnsureGitSetup\<close>: the world in which the identity is then
  configured, when the metadata directory is there or \<^verbatim>\<open>git init\<close> has been attempted
  with success; \<open>None\<close> when that attempt failed.
\<close>

definition repository_ready :: "'w platform \<Rightarrow> Operations \<Rightarrow> 'w \<Rightarrow> 'w option" where
  "repository_ready p ops w =
     (if os_Stat p w (filepath_Join p [workingDir ops, ''.git'']) = StatNotExist
      then (case attempt p ops [''init''] w of
              (None, w1, started) \<Rightarrow> Some w1
            | (Some err, w1, started) \<Rightarrow> None)
      else Some w)"

section \<open>A small simulated platform, for concrete runs\<close>

text \<open>
  A world of the simulation: the paths that exist, the paths whose removal is refused,
  the outcome of \<^verbatim>\<open>git\<close> for each argument list (a command that is not listed succeeds
  with no output), and the staged changes.  A successful \<^verbatim>\<open>git init\<close> creates the
  metadata directory and a successful \<^verbatim>\<open>git commit\<close> empties the staged changes.
\<close>

record sim_world =
  sim_files :: "string list"
  sim_stuck :: "string list"
  sim_script :: "(string list \<times> proc_result) list"
  sim_staged :: "string list"

fun sim_Join :: "string list \<Rightarrow> string" where
  "sim_Join [] = []"
| "sim_Join [x] = x"
| "sim_Join (x # y # ys) = x @ ''/'' @ sim_Join (y # ys)"

definition succeeded :: proc_result where
  "succeeded = \<lparr>exit_err = None, stdout = [], combined = []\<rparr>"

definition prints :: "string \<Rightarrow> proc_result" where
  "prints out = \<lparr>exit_err = None, stdout = out, combined = out\<rparr>"

definition fails :: "string \<Rightarrow> string \<Rightarrow> string \<Rightarrow> proc_result" where
  "fails err out errout = \<lparr>exit_err = Some err, stdout = out, combined = out @ errout\<rparr>"

definition sim_effect :: "string \<Rightarrow> string list \<Rightarrow> sim_world \<Rightarrow> sim_world" where
  "sim_effect dir args w =
     (if args = [''init''] then w\<lparr>sim_files := sim_Join [dir, ''.git''] # sim_files w\<rparr>
      else if take 1 args = [''commit''] then w\<lparr>sim_staged := []\<rparr>
      else w)"

definition sim_exec ::
  "sim_world \<Rightarrow> string \<Rightarrow> string \<Rightarrow> string list \<Rightarrow> proc_result \<times> sim_world" where
  "sim_exec w dir name args =
     (case map_of (sim_script w) args of
        None \<Rightarrow> (succeeded, sim_effect dir args w)
      | Some r \<Rightarrow> (r, if exit_err r = None then sim_effect dir args w else w))"

definition sim_Stat :: "sim_world \<Rightarrow> string \<Rightarrow> stat_result" where
  "sim_Stat w f = (if f \<in> set (sim_files w) then StatOk else StatNotExist)"

definition sim_Remove :: "sim_world \<Rightarrow> string \<Rightarrow> error \<times> sim_world" where
  "sim_Remove w f =
     (if f \<in> set (sim_stuck w) then (Some ''operation not permitted'', w)
      else (None, w\<lparr>sim_files := removeAll f (sim_files w)\<rparr>))"

definition sim_Getenv :: "(string \<times> string) list \<Rightarrow> string \<Rightarrow> string" where
  "sim_Getenv env k = (case map_of env k of None \<Rightarrow> [] | Some v \<Rightarrow> v)"

definition sim :: "(string \<times> string) list \<Rightarrow> sim_world platform" where
  "sim env =
     \<lparr>filepath_Join = sim_Join, os_Stat = sim_Stat, os_Remove = sim_Remove,
      os_Getenv = sim_Getenv env, exec_Command = sim_exec\<rparr>"

text \<open>The orchestrator of the concrete runs, and a repository with nothing special.\<close>

definition repo :: Operations where
  "repo = NewOperations ''/repo'' False"

definition plain :: sim_world where
  "plain = \<lparr>sim_files = [''/repo/.git''], sim_stuck = [], sim_script = [], sim_staged = []\<rparr>"

text \<open>The command lines of the identity step and of the remote registration.\<close>

abbreviation config_args :: "'w platform \<Rightarrow> string list" where
  "config_args p \<equiv> [''config'', ''--global'', ''user.name'', os_Getenv p ''GITHUB_USERNAME'']"

abbreviation add_args :: "'w platform \<Rightarrow> string \<Rightarrow> string list" where
  "add_args p repoName \<equiv> [''remote'', ''add'', ''origin'',
     ''https://github.com/'' @ os_Getenv p ''GITHUB_USERNAME'' @ ''/'' @ repoName @ ''.git'']"

abbreviation status_args :: "string list" where
  "status_args \<equiv> [''status'', ''--porcelain'']"

text \<open>The worlds of the concrete runs.\<close>

definition unstaged_only :: sim_world where
  "unstaged_only = plain\<lparr>sim_script :=
     [([''diff'', ''--cached''], succeeded),
      ([''diff''], prints ''diff --git a/README.md b/README.md'')]\<rparr>"

definition no_repository :: sim_world where
  "no_repository = plain\<lparr>sim_files := [], sim_script :=
     [([''diff'', ''--cached''], fails ''exit status 129'' [] ''error: unknown option cached''),
      ([''diff''], fails ''exit status 128'' [] ''fatal: not a git repository'')]\<rparr>"

definition commit_rejected :: sim_world where
  "commit_rejected = plain\<lparr>sim_staged := [''a.txt''], sim_script :=
     [([''status'', ''--porcelain''], prints ''M  a.txt''),
      ([''commit'', ''-m'', ''msg''], fails ''exit status 1'' [] ''pre-commit hook declined'')]\<rparr>"

definition fresh :: sim_world where
  "fresh = plain\<lparr>sim_files := [], sim_script :=
     [([''remote'', ''get-url'', ''origin''],
       fails ''exit status 2'' [] ''error: No such remote origin'')]\<rparr>"


definition stale_lock :: sim_world where
  "stale_lock = plain\<lparr>sim_files := [''/repo/.git'', ''/repo/.git/index.lock'']\<rparr>"

definition stuck_lock :: sim_world where
  "stuck_lock = plain\<lparr>sim_files := [''/repo/.git'', ''/repo/.git/index.lock''],
     sim_stuck := [''/repo/.git/index.lock'']\<rparr>"

text \<open>
  A platform on which the first removal of a file fails and the later ones succeed: its
  world counts the removals tried.  Its \<^verbatim>\<open>index.lock\<close> is there until a removal has
  succeeded, and its \<^verbatim>\<open>git status\<close> prints a change.
\<close>

definition flaky :: "nat platform" where
  "flaky =
     \<lparr>filepath_Join = sim_Join,
      os_Stat = (\<lambda>n f. if f = ''/repo/.git/index.lock'' \<and> n < 2 then StatOk else StatNotExist),
      os_Remove = (\<lambda>n f. if n = 0 then (Some ''device or resource busy'', 1) else (None, Suc n)),
      os_Getenv = (\<lambda>k. []),
      exec_Command = (\<lambda>n dir name args.
        (if args = [''status'', ''--porcelain''] then prints ''M  a.txt'' else succeeded, n))\<rparr>"

text \<open>An environment that sets the account.\<close>

definition octocat :: "(string \<times> string) list" where
  "octocat = [(''GITHUB_USERNAME'', ''octocat'')]"

section \<open>Basic facts\<close>

lemma commands_append [simp]: "commands (xs @ ys) = commands xs @ commands ys"
  by (induction xs rule: commands.induct) simp_all

lemma sim_sel [simp]:
  "filepath_Join (sim env) = sim_Join" "os_Stat (sim env) = sim_Stat"
  "os_Remove (sim env) = sim_Remove" "os_Getenv (sim env) = sim_Getenv env"
  "exec_Command (sim env) = sim_exec"
  by (simp_all add: sim_def)

lemma repo_sel [simp]: "workingDir repo = ''/repo''"
  by (simp add: repo_def NewOperations_def)

lemmas sim_defs = sim_exec_def sim_effect_def sim_Stat_def sim_Remove_def sim_Getenv_def
  succeeded_def prints_def fails_def plain_def

lemmas run_defs = EnsureGitSetup_def ensureIdentityAndRemote_def configureGitUser_def
  ensureRemote_def remoteURL_def gitDir_def runCommand_def cleanupLocks_def lockFiles_def
  StageAll_def verifyStaged_def Commit_def Push_def

lemma cleanupLocks_loop_commands [simp]:
  "commands (snd (snd (cleanupLocks_loop p fs w))) = []"
  by (induction fs arbitrary: w)
     (simp_all add: case_prod_beta split: stat_result.splits option.splits)

lemma cleanupLocks_commands [simp]: "commands (snd (snd (cleanupLocks p ops w))) = []"
  by (simp add: cleanupLocks_def)

lemma cleanupLocks_loop_frame:
  assumes "\<forall>v f. f \<in> set fs \<longrightarrow> obs (snd (os_Remove p v f)) = obs v"
  shows "obs (fst (snd (cleanupLocks_loop p fs w))) = obs w"
  using assms
proof (induction fs arbitrary: w)
  case Nil
  then show ?case by simp
next
  case (Cons f fs)
  have keep: "obs (snd (os_Remove p w f)) = obs w"
    using Cons.prems by simp
  have rest: "\<And>v. obs (fst (snd (cleanupLocks_loop p fs v))) = obs v"
    using Cons.IH Cons.prems by simp
  show ?case
  proof (cases "os_Stat p w f")
    case StatOk
    obtain e v where rm: "os_Remove p w f = (e, v)" by (cases "os_Remove p w f")
    with keep have "obs v = obs w" by simp
    with StatOk rm rest [of v] show ?thesis
      by (cases e) (simp_all add: case_prod_beta)
  next
    case StatNotExist
    with rest [of w] show ?thesis by (simp add: case_prod_beta)
  next
    case StatError
    with rest [of w] show ?thesis by (simp add: case_prod_beta)
  qed
qed

lemma runCommand_cases:
  assumes "runCommand p ops ''git'' args w = (res, w', ev)"
  obtains (lock) err where "cleanupLocks p ops w = (Some err, w', ev)" "res = Some err"
  | (ran) w1 ev1 r where "cleanupLocks p ops w = (None, w1, ev1)"
      "exec_Command p w1 (workingDir ops) ''git'' args = (r, w')"
      "res = map_option (\<lambda>e. e @ '': '' @ combined r) (exit_err r)"
      "ev = ev1 @ Log Command ''git'' args # Exec (workingDir ops) ''git'' args r #
              (case exit_err r of None \<Rightarrow> [] | Some e \<Rightarrow> [Log Debug ''Command output: %s'' [combined r]])"
  using assms
  by (auto simp: runCommand_def split: prod.splits option.splits)

lemma runCommand_commands:
  "commands (snd (snd (runCommand p ops ''git'' args w))) =
     (if fst (cleanupLocks p ops w) = None then [(''git'', args)] else [])"
  by (auto simp: runCommand_def case_prod_beta split: option.splits)

lemma ensureIdentityAndRemote_cases:
  assumes "ensureIdentityAndRemote p ops repoName w = (res, w', ev)"
  obtains (config_failed) r e where
      "exec_Command p w (workingDir ops) ''git'' (config_args p) = (r, w')"
      "exit_err r = Some e" "res = Some (''failed to set git user.name: '' @ e)"
      "ev = [Log Step ''Configuring git user...'' [],
             Exec (workingDir ops) ''git'' (config_args p) r,
             Log Error ''Failed to set git username'' []]"
  | (origin_exists) r w1 r2 where
      "exec_Command p w (workingDir ops) ''git'' (config_args p) = (r, w1)" "exit_err r = None"
      "exec_Command p w1 (workingDir ops) ''git'' [''remote'', ''get-url'', ''origin''] = (r2, w')"
      "exit_err r2 = None" "res = None"
      "ev = [Log Step ''Configuring git user...'' [],
             Exec (workingDir ops) ''git'' (config_args p) r,
             Log Success ''Git user configured'' [],
             Log Step ''Checking remote configuration...'' [],
             Exec (workingDir ops) ''git'' [''remote'', ''get-url'', ''origin''] r2,
             Log Info ''Remote origin already configured'' []]"
  | (origin_missing) r w1 r2 w2 res2 ev2 where
      "exec_Command p w (workingDir ops) ''git'' (config_args p) = (r, w1)" "exit_err r = None"
      "exec_Command p w1 (workingDir ops) ''git'' [''remote'', ''get-url'', ''origin''] = (r2, w2)"
      "exit_err r2 \<noteq> None"
      "runCommand p ops ''git'' (add_args p repoName) w2 = (res2, w', ev2)"
      "res = map_option (\<lambda>e. ''failed to add remote origin: '' @ e) res2"
      "ev = [Log Step ''Configuring git user...'' [],
             Exec (workingDir ops) ''git'' (config_args p) r,
             Log Success ''Git user configured'' [],
             Log Step ''Checking remote configuration...'' [],
             Exec (workingDir ops) ''git'' [''remote'', ''get-url'', ''origin''] r2,
             Log Step ''Adding remote origin: %s''
               [''https://github.com/'' @ os_Getenv p ''GITHUB_USERNAME'' @ ''/'' @ repoName @ ''.git'']]
            @ ev2 @
            [case res2 of None \<Rightarrow> Log Success ''Remote origin added'' []
             | Some e \<Rightarrow> Log Error ''Failed to add remote origin'' []]"
proof -
  obtain r w1 where c: "exec_Command p w (workingDir ops) ''git'' (config_args p) = (r, w1)"
    by (cases "exec_Command p w (workingDir ops) ''git'' (config_args p)")
  show thesis
  proof (cases "exit_err r")
    case (Some e)
    with c assms show thesis
      by (intro config_failed [of r e])
         (simp_all add: ensureIdentityAndRemote_def configureGitUser_def)
  next
    case None
    obtain r2 w2 where
      g: "exec_Command p w1 (workingDir ops) ''git'' [''remote'', ''get-url'', ''origin''] = (r2, w2)"
      by (cases "exec_Command p w1 (workingDir ops) ''git'' [''remote'', ''get-url'', ''origin'']")
    show thesis
    proof (cases "exit_err r2")
      case n2: None
      with None c g assms show thesis
        by (intro origin_exists [of r w1 r2])
           (simp_all add: ensureIdentityAndRemote_def configureGitUser_def ensureRemote_def)
    next
      case (Some e2)
      obtain res2 w3 ev2 where
        a: "runCommand p ops ''git'' (add_args p repoName) w2 = (res2, w3, ev2)"
        by (cases "runCommand p ops ''git'' (add_args p repoName) w2")
      with Some None c g assms show thesis
        by (intro origin_missing [of r w1 r2 w2 res2 ev2]; cases res2)
           (simp_all add: ensureIdentityAndRemote_def configureGitUser_def ensureRemote_def
              remoteURL_def)
    qed
  qed
qed

lemma EnsureGitSetup_cases:
  assumes "EnsureGitSetup p ops repoName w = (res, w', ev)"
  obtains (init_failed) e ev1 where
      "os_Stat p w (gitDir p ops) = StatNotExist"
      "runCommand p ops ''git'' [''init''] w = (Some e, w', ev1)"
      "res = Some (''failed to initialize git repository: '' @ e)"
      "ev = [Stat (gitDir p ops) StatNotExist, Log Step ''Initializing git repository...'' []]
            @ ev1 @ [Log Error ''Failed to initialize git repository'' []]"
  | (initialized) w1 ev1 ev2 where
      "os_Stat p w (gitDir p ops) = StatNotExist"
      "runCommand p ops ''git'' [''init''] w = (None, w1, ev1)"
      "ensureIdentityAndRemote p ops repoName w1 = (res, w', ev2)"
      "ev = [Stat (gitDir p ops) StatNotExist, Log Step ''Initializing git repository...'' []]
            @ ev1 @ [Log Success ''Git repository initialized'' []] @ ev2"
  | (present) ev2 where
      "os_Stat p w (gitDir p ops) \<noteq> StatNotExist"
      "ensureIdentityAndRemote p ops repoName w = (res, w', ev2)"
      "ev = [Stat (gitDir p ops) (os_Stat p w (gitDir p ops)),
             Log Info ''Git repository already initialized'' []] @ ev2"
proof (cases "os_Stat p w (gitDir p ops) = StatNotExist")
  case True
  obtain r1 w1 ev1 where i: "runCommand p ops ''git'' [''init''] w = (r1, w1, ev1)"
    by (cases "runCommand p ops ''git'' [''init''] w")
  show thesis
  proof (cases r1)
    case (Some e)
    with True i assms show thesis
      by (intro init_failed [of e ev1]) (simp_all add: EnsureGitSetup_def)
  next
    case None
    with True i assms show thesis
      by (intro initialized [of w1 ev1 "snd (snd (ensureIdentityAndRemote p ops repoName w1))"])
         (auto simp: EnsureGitSetup_def split: prod.splits)
  qed
next
  case False
  with assms show thesis
    by (intro present [of "snd (snd (ensureIdentityAndRemote p ops repoName w))"])
       (auto simp: EnsureGitSetup_def split: prod.splits stat_result.splits)
qed

lemma lock_failures_append [simp]: "lock_failures (xs @ ys) = lock_failures xs @ lock_failures ys"
  by (induction xs rule: lock_failures.induct) simp_all

lemma cleanupLocks_loop_failures:
  "(lock_failures (snd (snd (cleanupLocks_loop p fs w))) = []) = (fst (cleanupLocks_loop p fs w) = None)"
  by (induction fs arbitrary: w)
     (simp_all add: case_prod_beta split: stat_result.splits option.splits)

lemma cleanupLocks_failures:
  "cleanupLocks p ops w = (res, w', ev) \<Longrightarrow> (lock_failures ev = []) = (res = None)"
  using cleanupLocks_loop_failures [of p "lockFiles p ops" w] by (simp add: cleanupLocks_def)

lemma commands_execs: "commands ev = map (\<lambda>(d, n, a, r). (n, a)) (execs ev)"
  by (induction ev rule: execs.induct) simp_all

lemma outcomes_execs: "outcomes ev = map (\<lambda>(d, n, a, r). (a, exit_err r = None)) (execs ev)"
  by (induction ev rule: execs.induct) simp_all

lemma execs_append [simp]: "execs (xs @ ys) = execs xs @ execs ys"
  by (induction xs rule: execs.induct) simp_all

lemma cleanupLocks_loop_execs [simp]: "execs (snd (snd (cleanupLocks_loop p fs w))) = []"
  by (induction fs arbitrary: w)
     (simp_all add: case_prod_beta split: stat_result.splits option.splits)

lemma cleanupLocks_execs: "cleanupLocks p ops w = (res, w', ev) \<Longrightarrow> execs ev = []"
  using cleanupLocks_loop_execs [of p "lockFiles p ops" w] by (simp add: cleanupLocks_def)

lemma runCommand_execs:
  assumes "runCommand p ops ''git'' args w = (res, w', ev)"
  obtains (blocked) err where "cleanupLocks p ops w = (Some err, w', ev)" "res = Some err"
      "execs ev = []" "lock_failures ev \<noteq> []"
  | (ran) w1 ev1 r where "cleanupLocks p ops w = (None, w1, ev1)"
      "exec_Command p w1 (workingDir ops) ''git'' args = (r, w')"
      "res = map_option (\<lambda>e. e @ '': '' @ combined r) (exit_err r)"
      "execs ev = [(workingDir ops, ''git'', args, r)]" "lock_failures ev = []"
  using assms
proof (cases rule: runCommand_cases)
  case (lock err)
  with cleanupLocks_execs [OF lock(1)] cleanupLocks_failures [OF lock(1)]
  show ?thesis by (intro blocked [of err]) simp_all
next
  case (ran w1 ev1 r)
  with cleanupLocks_execs [OF ran(1)] cleanupLocks_failures [OF ran(1)] show ?thesis
    by (intro that(2) [of w1 ev1 r]) (simp_all split: option.splits)
qed

lemma ensureIdentityAndRemote_execs:
  assumes "ensureIdentityAndRemote p ops repoName w = (res, w', ev)"
  obtains (config_failed) r e where
      "exec_Command p w (workingDir ops) ''git'' (config_args p) = (r, w')"
      "exit_err r = Some e" "res = Some (''failed to set git user.name: '' @ e)"
      "execs ev = [(workingDir ops, ''git'', config_args p, r)]" "lock_failures ev = []"
  | (origin_exists) r w1 r2 where
      "exec_Command p w (workingDir ops) ''git'' (config_args p) = (r, w1)" "exit_err r = None"
      "exec_Command p w1 (workingDir ops) ''git'' [''remote'', ''get-url'', ''origin''] = (r2, w')"
      "exit_err r2 = None" "res = None"
      "execs ev = [(workingDir ops, ''git'', config_args p, r),
                   (workingDir ops, ''git'', [''remote'', ''get-url'', ''origin''], r2)]"
      "lock_failures ev = []"
  | (add_blocked) r w1 r2 w2 err ev2 where
      "exec_Command p w (workingDir ops) ''git'' (config_args p) = (r, w1)" "exit_err r = None"
      "exec_Command p w1 (workingDir ops) ''git'' [''remote'', ''get-url'', ''origin''] = (r2, w2)"
      "exit_err r2 \<noteq> None"
      "cleanupLocks p ops w2 = (Some err, w', ev2)"
      "res = Some (''failed to add remote origin: '' @ err)"
      "execs ev = [(workingDir ops, ''git'', config_args p, r),
                   (workingDir ops, ''git'', [''remote'', ''get-url'', ''origin''], r2)]"
      "lock_failures ev \<noteq> []"
  | (add_ran) r w1 r2 w2 w3 ev2 r3 where
      "exec_Command p w (workingDir ops) ''git'' (config_args p) = (r, w1)" "exit_err r = None"
      "exec_Command p w1 (workingDir ops) ''git'' [''remote'', ''get-url'', ''origin''] = (r2, w2)"
      "exit_err r2 \<noteq> None"
      "cleanupLocks p ops w2 = (None, w3, ev2)"
      "exec_Command p w3 (workingDir ops) ''git'' (add_args p repoName) = (r3, w')"
      "res = map_option (\<lambda>e. ''failed to add remote origin: '' @ e @ '': '' @ combined r3) (exit_err r3)"
      "execs ev = [(workingDir ops, ''git'', config_args p, r),
                   (workingDir ops, ''git'', [''remote'', ''get-url'', ''origin''], r2),
                   (workingDir ops, ''git'', add_args p repoName, r3)]"
      "lock_failures ev = []"
  using assms
proof (cases rule: ensureIdentityAndRemote_cases)
  case (config_failed r e)
  then show ?thesis by (intro that(1) [of r e]) simp_all
next
  case (origin_exists r w1 r2)
  then show ?thesis by (intro that(2) [of r w1 r2]) simp_all
next
  case (origin_missing r w1 r2 w2 res2 ev2)
  from origin_missing(5) show ?thesis
  proof (cases rule: runCommand_execs)
    case (blocked err)
    with origin_missing show ?thesis by (intro add_blocked [of r w1 r2 w2 err ev2]) simp_all
  next
    case (ran w3 ev3 r3)
    with origin_missing show ?thesis
      by (intro add_ran [of r w1 r2 w2 w3 ev3 r3])
         (simp_all add: option.map_comp comp_def split: option.splits)
  qed
qed

lemma EnsureGitSetup_execs:
  assumes "EnsureGitSetup p ops repoName w = (res, w', ev)"
  obtains (init_blocked) err ev1 where
      "os_Stat p w (gitDir p ops) = StatNotExist"
      "cleanupLocks p ops w = (Some err, w', ev1)"
      "res = Some (''failed to initialize git repository: '' @ err)"
      "execs ev = []" "lock_failures ev \<noteq> []"
  | (init_failed) w1 ev1 r0 e where
      "os_Stat p w (gitDir p ops) = StatNotExist"
      "cleanupLocks p ops w = (None, w1, ev1)"
      "exec_Command p w1 (workingDir ops) ''git'' [''init''] = (r0, w')"
      "exit_err r0 = Some e"
      "res = Some (''failed to initialize git repository: '' @ e @ '': '' @ combined r0)"
      "execs ev = [(workingDir ops, ''git'', [''init''], r0)]" "lock_failures ev = []"
  | (initialized) w1 ev1 r0 w2 ev2 where
      "os_Stat p w (gitDir p ops) = StatNotExist"
      "cleanupLocks p ops w = (None, w1, ev1)"
      "exec_Command p w1 (workingDir ops) ''git'' [''init''] = (r0, w2)"
      "exit_err r0 = None"
      "ensureIdentityAndRemote p ops repoName w2 = (res, w', ev2)"
      "execs ev = (workingDir ops, ''git'', [''init''], r0) # execs ev2"
      "lock_failures ev = lock_failures ev2"
  | (present) ev2 where
      "os_Stat p w (gitDir p ops) \<noteq> StatNotExist"
      "ensureIdentityAndRemote p ops repoName w = (res, w', ev2)"
      "execs ev = execs ev2" "lock_failures ev = lock_failures ev2"
  using assms
proof (cases rule: EnsureGitSetup_cases)
  case (init_failed e ev1)
  from init_failed(2) show ?thesis
  proof (cases rule: runCommand_execs)
    case (blocked err)
    with init_failed show ?thesis by (intro init_blocked [of err ev1]) simp_all
  next
    case (ran w1 ev0 r0)
    with init_failed show ?thesis
      by (cases "exit_err r0") (auto intro: that(2) [of w1 ev0 r0])
  qed
next
  case (initialized w1 ev1 ev2)
  from initialized(2) show ?thesis
  proof (cases rule: runCommand_execs)
    case (blocked err)
    then show ?thesis by simp
  next
    case (ran w0 ev0 r0)
    with initialized show ?thesis
      by (intro that(3) [of w0 ev0 r0 w1 ev2]) auto
  qed
next
  case (present ev2)
  then show ?thesis by (intro that(4) [of ev2]) simp_all
qed

lemma verifyStaged_execs:
  assumes "verifyStaged p ops w = (res, w', ev)"
  obtains r where "exec_Command p w (workingDir ops) ''git'' status_args = (r, w')"
    "res = (case exit_err r of Some e \<Rightarrow> Some (''failed to check git status: '' @ e)
            | None \<Rightarrow> if stdout r = [] then Some ''no changes to commit'' else None)"
    "execs ev = [(workingDir ops, ''git'', status_args, r)]" "lock_failures ev = []"
  using assms
  by (cases "exec_Command p w (workingDir ops) ''git'' status_args")
     (auto simp: verifyStaged_def split: option.splits if_splits)

lemma StageAll_execs:
  assumes "StageAll p ops w = (res, w', ev)"
  obtains (staged) w1 ev1 r1 w2 ev3 where
      "cleanupLocks p ops w = (None, w1, ev1)"
      "exec_Command p w1 (workingDir ops) ''git'' [''add'', ''-A''] = (r1, w2)"
      "exit_err r1 = None"
      "verifyStaged p ops w2 = (res, w', ev3)"
      "execs ev = (workingDir ops, ''git'', [''add'', ''-A''], r1) # execs ev3"
      "lock_failures ev = lock_failures ev3"
  | (retry_blocked) res1 w1 ev1 err ev2 where
      "runCommand p ops ''git'' [''add'', ''-A''] w = (res1, w1, ev1)" "res1 \<noteq> None"
      "cleanupLocks p ops w1 = (Some err, w', ev2)"
      "res = Some (''failed to stage files: '' @ err)"
      "execs ev = execs ev1" "lock_failures ev \<noteq> []"
  | (retry_failed) res1 w1 ev1 w2 ev2 r2 e where
      "runCommand p ops ''git'' [''add'', ''-A''] w = (res1, w1, ev1)" "res1 \<noteq> None"
      "cleanupLocks p ops w1 = (None, w2, ev2)"
      "exec_Command p w2 (workingDir ops) ''git'' [''add'', workingDir ops] = (r2, w')"
      "exit_err r2 = Some e"
      "res = Some (''failed to stage files: '' @ e @ '': '' @ combined r2)"
      "execs ev = execs ev1 @ [(workingDir ops, ''git'', [''add'', workingDir ops], r2)]"
      "lock_failures ev = lock_failures ev1"
  | (retry_staged) res1 w1 ev1 w2 ev2 r2 w3 ev3 where
      "runCommand p ops ''git'' [''add'', ''-A''] w = (res1, w1, ev1)" "res1 \<noteq> None"
      "cleanupLocks p ops w1 = (None, w2, ev2)"
      "exec_Command p w2 (workingDir ops) ''git'' [''add'', workingDir ops] = (r2, w3)"
      "exit_err r2 = None"
      "verifyStaged p ops w3 = (res, w', ev3)"
      "execs ev = execs ev1 @ (workingDir ops, ''git'', [''add'', workingDir ops], r2) # execs ev3"
      "lock_failures ev = lock_failures ev1 @ lock_failures ev3"
proof -
  obtain res1 w1 ev1 where a: "runCommand p ops ''git'' [''add'', ''-A''] w = (res1, w1, ev1)"
    by (cases "runCommand p ops ''git'' [''add'', ''-A''] w")
  show thesis
  proof (cases res1)
    case None
    obtain ev3 where v: "verifyStaged p ops w1 = (res, w', ev3)"
      and ev: "ev = [Log Step ''Staging all changes...'' []] @ ev1 @ ev3"
      using assms a None by (auto simp: StageAll_def split: prod.splits)
    from a show thesis
    proof (cases rule: runCommand_execs)
      case (blocked err)
      with None show thesis by simp
    next
      case (ran w0 ev0 r1)
      with None v ev show thesis
        by (intro staged [of w0 ev0 r1 w1 ev3]) simp_all
    qed
  next
    case (Some e1)
    obtain res2 w2 ev2 where
      b: "runCommand p ops ''git'' [''add'', workingDir ops] w1 = (res2, w2, ev2)"
      by (cases "runCommand p ops ''git'' [''add'', workingDir ops] w1")
    from b show thesis
    proof (cases rule: runCommand_execs)
      case (blocked err)
      with assms a b Some show thesis
        by (intro retry_blocked [of res1 w1 ev1 err ev2]) (auto simp: StageAll_def)
    next
      case (ran w0 ev0 r2)
      show thesis
      proof (cases "exit_err r2")
        case e: (Some e)
        with assms a b Some ran show thesis
          by (intro retry_failed [of res1 w1 ev1 w0 ev0 r2 e]) (auto simp: StageAll_def)
      next
        case n: None
        with ran have res2: "res2 = None" by simp
        obtain ev3 where v: "verifyStaged p ops w2 = (res, w', ev3)"
          and ev: "ev = [Log Step ''Staging all changes...'' []] @ ev1
             @ [Log Warning ''Failed to stage with -A flag, trying alternative method...'' []]
             @ ev2 @ ev3"
          using assms a b Some res2 by (auto simp: StageAll_def split: prod.splits)
        with a Some ran n show thesis
          by (intro retry_staged [of res1 w1 ev1 w0 ev0 r2 w2 ev3]) simp_all
      qed
    qed
  qed
qed

lemma Some_map_option [simp]: "(Some y = map_option f x) = (\<exists>z. x = Some z \<and> y = f z)"
  by (cases x) auto

lemma Commit_execs:
  assumes "Commit p ops message w = (res, w', ev)"
  obtains res1 ev1 where "runCommand p ops ''git'' [''commit'', ''-m'', message] w = (res1, w', ev1)"
    "res = map_option (\<lambda>e. ''failed to commit: '' @ e) res1"
    "execs ev = execs ev1" "lock_failures ev = lock_failures ev1"
  using assms
  by (cases "runCommand p ops ''git'' [''commit'', ''-m'', message] w")
     (auto simp: Commit_def split: option.splits)

lemma Push_execs:
  assumes "Push p ops remote branch w = (res, w', ev)"
  obtains res1 ev1 where
    "runCommand p ops ''git'' [''push'', ''-u'', if remote = [] then ''origin'' else remote,
        if branch = [] then ''main'' else branch] w = (res1, w', ev1)"
    "res = map_option (\<lambda>e. ''failed to push: '' @ e) res1"
    "execs ev = execs ev1" "lock_failures ev = lock_failures ev1"
  using assms
  by (cases "runCommand p ops ''git'' [''push'', ''-u'', if remote = [] then ''origin'' else remote,
        if branch = [] then ''main'' else branch] w")
     (auto simp: Push_def Let_def split: option.splits)





lemma guarded_append:
  "guarded lf h (xs @ ys) = (guarded lf h xs \<and> guarded lf (rev xs @ h) ys)"
proof (induction xs arbitrary: h)
  case Nil
  then show ?case by simp
next
  case (Cons a xs)
  then show ?case by (cases a) simp_all
qed

lemma guarded_no_execs: "execs xs = [] \<Longrightarrow> guarded lf h xs"
proof (induction xs arbitrary: h)
  case Nil
  then show ?case by simp
next
  case (Cons a xs)
  then show ?case by (cases a) simp_all
qed

lemma cleanupLocks_loop_cleared:
  "fst (cleanupLocks_loop p fs w) = None \<Longrightarrow>
   locks_cleared (rev fs @ gs)
     (filter (\<lambda>e. \<not> is_Log e) (rev (snd (snd (cleanupLocks_loop p fs w)))) @ h)
   = locks_cleared gs h"
proof (induction fs arbitrary: w gs h)
  case Nil
  then show ?case by simp
next
  case (Cons f fs)
  show ?case
  proof (cases "os_Stat p w f")
    case StatOk
    obtain e v where rm: "os_Remove p w f = (e, v)" by (cases "os_Remove p w f")
    with Cons.prems StatOk have e: "e = None" and rest: "fst (cleanupLocks_loop p fs v) = None"
      by (cases e; simp add: case_prod_beta)+
    from Cons.IH [OF rest, of "f # gs" "Remove f None # Stat f StatOk # h"] StatOk rm e
    show ?thesis by (simp add: case_prod_beta)
  next
    case StatNotExist
    with Cons.prems have rest: "fst (cleanupLocks_loop p fs w) = None"
      by (simp add: case_prod_beta)
    from Cons.IH [OF rest, of "f # gs" "Stat f StatNotExist # h"] StatNotExist
    show ?thesis by (simp add: case_prod_beta)
  next
    case StatError
    with Cons.prems have rest: "fst (cleanupLocks_loop p fs w) = None"
      by (simp add: case_prod_beta)
    from Cons.IH [OF rest, of "f # gs" "Stat f StatError # h"] StatError
    show ?thesis by (simp add: case_prod_beta)
  qed
qed

lemma cleanupLocks_loop_error:
  "fst (cleanupLocks_loop p fs w) = Some err \<Longrightarrow>
   \<exists>f \<in> set fs. \<exists>e. err = ''failed to remove lock file '' @ f @ '': '' @ e"
proof (induction fs arbitrary: w)
  case Nil
  then show ?case by simp
next
  case (Cons f fs)
  show ?case
  proof (cases "os_Stat p w f = StatOk \<and> fst (os_Remove p w f) \<noteq> None")
    case True
    with Cons.prems show ?thesis by (auto simp: case_prod_beta)
  next
    case False
    then obtain v where "fst (cleanupLocks_loop p fs v) = Some err"
      using Cons.prems
      by (cases "os_Stat p w f"; cases "fst (os_Remove p w f)") (auto simp: case_prod_beta)
    from Cons.IH [OF this] show ?thesis by auto
  qed
qed

lemma runCommand_guarded:
  "guarded (lockFiles p ops) h (snd (snd (runCommand p ops ''git'' args w)))"
proof (cases "fst (cleanupLocks p ops w)")
  case (Some err)
  then show ?thesis
    by (simp add: runCommand_def case_prod_beta guarded_no_execs cleanupLocks_def)
next
  case None
  then have "locks_cleared (rev (lockFiles p ops) @ [])
     (filter (\<lambda>e. \<not> is_Log e) (rev (snd (snd (cleanupLocks p ops w)))) @
      filter (\<lambda>e. \<not> is_Log e) h) = True"
    unfolding cleanupLocks_def by (subst cleanupLocks_loop_cleared) simp_all
  with None show ?thesis
    by (simp add: runCommand_def case_prod_beta guarded_append guarded_no_execs cleanupLocks_def
          split: option.splits)
qed

lemma not_mutating [simp]:
  "\<not> mutating [''config'', a, b, c]" "\<not> mutating [''remote'', ''get-url'', d]"
  "\<not> mutating [''status'', e]" "\<not> mutating [''diff'']" "\<not> mutating [''diff'', f]"
  by (simp_all add: mutating_def)

lemma Commit_guarded: "guarded (lockFiles p ops) h (snd (snd (Commit p ops message w)))"
  by (simp add: Commit_def case_prod_beta guarded_append runCommand_guarded split: option.splits)

lemma Push_guarded: "guarded (lockFiles p ops) h (snd (snd (Push p ops remote branch w)))"
  by (simp add: Push_def Let_def case_prod_beta guarded_append runCommand_guarded
        split: option.splits)

lemma verifyStaged_guarded: "guarded (lockFiles p ops) h (snd (snd (verifyStaged p ops w)))"
  by (simp add: verifyStaged_def case_prod_beta split: option.splits)

lemma StageAll_guarded: "guarded (lockFiles p ops) h (snd (snd (StageAll p ops w)))"
  by (simp add: StageAll_def case_prod_beta guarded_append runCommand_guarded verifyStaged_guarded
        split: option.splits)

lemma ensureIdentityAndRemote_guarded:
  "guarded (lockFiles p ops) h (snd (snd (ensureIdentityAndRemote p ops repoName w)))"
  by (simp add: ensureIdentityAndRemote_def configureGitUser_def ensureRemote_def
        case_prod_beta guarded_append runCommand_guarded split: option.splits)

lemma EnsureGitSetup_guarded:
  "guarded (lockFiles p ops) h (snd (snd (EnsureGitSetup p ops repoName w)))"
  by (simp add: EnsureGitSetup_def case_prod_beta guarded_append runCommand_guarded
        ensureIdentityAndRemote_guarded split: option.splits stat_result.splits)

lemma cleanupLocks_clear_locks: "ends (cleanupLocks p ops w) = clear_locks p ops w"
  by (simp add: cleanupLocks_def lockFiles_def clear_locks_def remove_if_found_def case_prod_beta
        split: stat_result.splits option.splits)

lemma cleanupLocks_clear:
  "cleanupLocks p ops w = (res, w1, ev) \<Longrightarrow> clear_locks p ops w = (res, w1)"
  using cleanupLocks_clear_locks [of p ops w] by simp

lemma clear_locks_cleanup:
  assumes "clear_locks p ops w = (res, w1)"
  obtains ev where "cleanupLocks p ops w = (res, w1, ev)"
  using assms cleanupLocks_clear_locks [of p ops w]
  by (cases "cleanupLocks p ops w") simp

lemma runCommand_attempt:
  "(fst (runCommand p ops ''git'' args w), fst (snd (runCommand p ops ''git'' args w)),
    execs (snd (snd (runCommand p ops ''git'' args w)))) = attempt p ops args w"
proof -
  obtain res w' ev where run: "runCommand p ops ''git'' args w = (res, w', ev)"
    by (cases "runCommand p ops ''git'' args w")
  then show ?thesis
  proof (cases rule: runCommand_execs)
    case (blocked err)
    with run cleanupLocks_clear [OF blocked(1)] show ?thesis
      by (simp add: attempt_def)
  next
    case (ran w1 ev1 r)
    with run cleanupLocks_clear [OF ran(1)] show ?thesis
      by (simp add: attempt_def)
  qed
qed

lemma runCommand_attemptD:
  assumes "attempt p ops args w = (res, w1, started)"
  obtains ev where "runCommand p ops ''git'' args w = (res, w1, ev)" "execs ev = started"
  using assms runCommand_attempt [of p ops args w]
  by (cases "runCommand p ops ''git'' args w") simp


lemma attempt_started:
  "snd (snd (attempt p ops args w)) = [] \<or>
   (\<exists>r. snd (snd (attempt p ops args w)) = [(workingDir ops, ''git'', args, r)])"
  by (simp add: attempt_def case_prod_beta split: option.splits)

lemma attempt_blocked:
  "clear_locks p ops w = (Some err, w1) \<Longrightarrow> attempt p ops args w = (Some err, w1, [])"
  by (simp add: attempt_def)

lemma attempt_ran:
  "clear_locks p ops w = (None, w1) \<Longrightarrow> exec_Command p w1 (workingDir ops) ''git'' args = (r, w2)
   \<Longrightarrow> attempt p ops args w =
       (map_option (\<lambda>e. e @ '': '' @ combined r) (exit_err r), w2,
        [(workingDir ops, ''git'', args, r)])"
  by (simp add: attempt_def)

lemma Commit_attempt:
  "(fst (Commit p ops message w), fst (snd (Commit p ops message w)),
    execs (snd (snd (Commit p ops message w))))
   = (map_option (\<lambda>e. ''failed to commit: '' @ e) (fst (attempt p ops [''commit'', ''-m'', message] w)),
      snd (attempt p ops [''commit'', ''-m'', message] w))"
proof -
  obtain res w' ev where run: "Commit p ops message w = (res, w', ev)"
    by (cases "Commit p ops message w")
  then show ?thesis
  proof (cases rule: Commit_execs)
    case (1 res1 ev1)
    with run runCommand_attempt [of p ops "[''commit'', ''-m'', message]" w, symmetric]
    show ?thesis by simp
  qed
qed

lemma Push_attempt:
  "(fst (Push p ops remote branch w), fst (snd (Push p ops remote branch w)),
    execs (snd (snd (Push p ops remote branch w))))
   = (map_option (\<lambda>e. ''failed to push: '' @ e)
        (fst (attempt p ops [''push'', ''-u'', if remote = [] then ''origin'' else remote,
                               if branch = [] then ''main'' else branch] w)),
      snd (attempt p ops [''push'', ''-u'', if remote = [] then ''origin'' else remote,
                           if branch = [] then ''main'' else branch] w))"
proof -
  obtain res w' ev where run: "Push p ops remote branch w = (res, w', ev)"
    by (cases "Push p ops remote branch w")
  then show ?thesis
  proof (cases rule: Push_execs)
    case (1 res1 ev1)
    with run runCommand_attempt [of p ops "[''push'', ''-u'', if remote = [] then ''origin'' else remote,
                               if branch = [] then ''main'' else branch]" w, symmetric]
    show ?thesis by simp
  qed
qed

lemma verifyStaged_status:
  assumes "exec_Command p w (workingDir ops) ''git'' status_args = (r, w1)"
  shows "(fst (verifyStaged p ops w), fst (snd (verifyStaged p ops w)),
          execs (snd (snd (verifyStaged p ops w))))
     = (case exit_err r of Some e \<Rightarrow> Some (''failed to check git status: '' @ e)
        | None \<Rightarrow> if stdout r = [] then Some ''no changes to commit'' else None,
        w1, [(workingDir ops, ''git'', status_args, r)])"
  using assms by (simp add: verifyStaged_def split: option.splits)

lemma StageAll_first_succeeds:
  assumes "attempt p ops [''add'', ''-A''] w = (None, w1, x1)"
  shows "(fst (StageAll p ops w), fst (snd (StageAll p ops w)), execs (snd (snd (StageAll p ops w))))
     = (fst (verifyStaged p ops w1), fst (snd (verifyStaged p ops w1)),
        x1 @ execs (snd (snd (verifyStaged p ops w1))))"
proof -
  from assms obtain ev where "runCommand p ops ''git'' [''add'', ''-A''] w = (None, w1, ev)"
    and "execs ev = x1"
    by (rule runCommand_attemptD)
  then show ?thesis by (simp add: StageAll_def case_prod_beta)
qed

lemma StageAll_retry_succeeds:
  assumes "attempt p ops [''add'', ''-A''] w = (Some e1, w1, x1)"
    and "attempt p ops [''add'', workingDir ops] w1 = (None, w2, x2)"
  shows "(fst (StageAll p ops w), fst (snd (StageAll p ops w)), execs (snd (snd (StageAll p ops w))))
     = (fst (verifyStaged p ops w2), fst (snd (verifyStaged p ops w2)),
        x1 @ x2 @ execs (snd (snd (verifyStaged p ops w2))))"
proof -
  from assms(1) obtain ev1 where a: "runCommand p ops ''git'' [''add'', ''-A''] w = (Some e1, w1, ev1)"
    and x1: "execs ev1 = x1"
    by (rule runCommand_attemptD)
  from assms(2) obtain ev2 where b: "runCommand p ops ''git'' [''add'', workingDir ops] w1 = (None, w2, ev2)"
    and x2: "execs ev2 = x2"
    by (rule runCommand_attemptD)
  from a b x1 x2 show ?thesis by (simp add: StageAll_def case_prod_beta)
qed

lemma StageAll_retry_fails:
  assumes "attempt p ops [''add'', ''-A''] w = (Some e1, w1, x1)"
    and "attempt p ops [''add'', workingDir ops] w1 = (Some e2, w2, x2)"
  shows "(fst (StageAll p ops w), fst (snd (StageAll p ops w)), execs (snd (snd (StageAll p ops w))))
     = (Some (''failed to stage files: '' @ e2), w2, x1 @ x2)"
proof -
  from assms(1) obtain ev1 where a: "runCommand p ops ''git'' [''add'', ''-A''] w = (Some e1, w1, ev1)"
    and x1: "execs ev1 = x1"
    by (rule runCommand_attemptD)
  from assms(2) obtain ev2 where b: "runCommand p ops ''git'' [''add'', workingDir ops] w1 = (Some e2, w2, ev2)"
    and x2: "execs ev2 = x2"
    by (rule runCommand_attemptD)
  from a b x1 x2 show ?thesis by (simp add: StageAll_def)
qed

lemma ensureIdentityAndRemote_config_fails:
  assumes "exec_Command p v (workingDir ops) ''git'' (config_args p) = (rc, w1)"
    and "exit_err rc = Some e"
  shows "ensureIdentityAndRemote p ops repoName v =
     (Some (''failed to set git user.name: '' @ e), w1,
      [Log Step ''Configuring git user...'' [],
       Exec (workingDir ops) ''git'' (config_args p) rc,
       Log Error ''Failed to set git username'' []])"
  using assms by (simp add: ensureIdentityAndRemote_def configureGitUser_def)

lemma ensureIdentityAndRemote_origin_exists:
  assumes "exec_Command p v (workingDir ops) ''git'' (config_args p) = (rc, w1)"
    and "exit_err rc = None"
    and "exec_Command p w1 (workingDir ops) ''git'' [''remote'', ''get-url'', ''origin''] = (rg, w2)"
    and "exit_err rg = None"
  shows "ends (ensureIdentityAndRemote p ops repoName v) = (None, w2)
     \<and> execs (snd (snd (ensureIdentityAndRemote p ops repoName v)))
        = [(workingDir ops, ''git'', config_args p, rc),
           (workingDir ops, ''git'', [''remote'', ''get-url'', ''origin''], rg)]"
  using assms by (simp add: ensureIdentityAndRemote_def configureGitUser_def ensureRemote_def)

lemma ensureIdentityAndRemote_origin_missing:
  assumes "exec_Command p v (workingDir ops) ''git'' (config_args p) = (rc, w1)"
    and "exit_err rc = None"
    and "exec_Command p w1 (workingDir ops) ''git'' [''remote'', ''get-url'', ''origin''] = (rg, w2)"
    and "exit_err rg = Some eg"
  shows "(fst (ensureIdentityAndRemote p ops repoName v),
          fst (snd (ensureIdentityAndRemote p ops repoName v)),
          execs (snd (snd (ensureIdentityAndRemote p ops repoName v))))
     = (map_option (\<lambda>e. ''failed to add remote origin: '' @ e) (fst (attempt p ops (add_args p repoName) w2)),
        fst (snd (attempt p ops (add_args p repoName) w2)),
        [(workingDir ops, ''git'', config_args p, rc),
         (workingDir ops, ''git'', [''remote'', ''get-url'', ''origin''], rg)]
        @ snd (snd (attempt p ops (add_args p repoName) w2)))"
proof -
  obtain res w3 x where a: "attempt p ops (add_args p repoName) w2 = (res, w3, x)"
    by (cases "attempt p ops (add_args p repoName) w2")
  then obtain ev where "runCommand p ops ''git'' (add_args p repoName) w2 = (res, w3, ev)"
    and "execs ev = x"
    by (rule runCommand_attemptD)
  with assms a show ?thesis
    by (cases res)
       (simp_all add: ensureIdentityAndRemote_def configureGitUser_def ensureRemote_def remoteURL_def)
qed

lemma EnsureGitSetup_ready:
  assumes "repository_ready p ops w = Some v"
  shows "ends (EnsureGitSetup p ops repoName w) = ends (ensureIdentityAndRemote p ops repoName v)
     \<and> (\<exists>pre. execs (snd (snd (EnsureGitSetup p ops repoName w)))
            = pre @ execs (snd (snd (ensureIdentityAndRemote p ops repoName v)))
          \<and> (pre = [] \<or> (\<exists>r0. pre = [(workingDir ops, ''git'', [''init''], r0)])))"
proof (cases "os_Stat p w (gitDir p ops) = StatNotExist")
  case False
  with assms have "v = w" by (simp add: repository_ready_def gitDir_def)
  with False show ?thesis
    by (cases "os_Stat p w (gitDir p ops)") (simp_all add: EnsureGitSetup_def case_prod_beta)
next
  case True
  obtain res w1 x where a: "attempt p ops [''init''] w = (res, w1, x)"
    by (cases "attempt p ops [''init''] w")
  with True assms have res: "res = None" and v: "v = w1"
    by (cases res; simp add: repository_ready_def gitDir_def)+
  from a obtain ev where r: "runCommand p ops ''git'' [''init''] w = (res, w1, ev)"
    and x: "execs ev = x"
    by (rule runCommand_attemptD)
  from attempt_started [of p ops "[''init'']" w] a
  have "x = [] \<or> (\<exists>r0. x = [(workingDir ops, ''git'', [''init''], r0)])" by simp
  with True r x res v show ?thesis
    by (simp add: EnsureGitSetup_def case_prod_beta)
qed

lemma EnsureGitSetup_not_ready:
  assumes "repository_ready p ops w = None"
  shows "\<exists>e. ends (EnsureGitSetup p ops repoName w)
       = (Some (''failed to initialize git repository: '' @ e), fst (snd (attempt p ops [''init''] w)))
     \<and> fst (attempt p ops [''init''] w) = Some e"
proof -
  have absent: "os_Stat p w (gitDir p ops) = StatNotExist"
    using assms by (simp add: repository_ready_def gitDir_def split: if_splits)
  obtain res w1 x where a: "attempt p ops [''init''] w = (res, w1, x)"
    by (cases "attempt p ops [''init''] w")
  with absent assms obtain e where res: "res = Some e"
    by (cases res) (simp_all add: repository_ready_def gitDir_def)
  from a obtain ev where r: "runCommand p ops ''git'' [''init''] w = (res, w1, ev)"
    by (rule runCommand_attemptD)
  with absent res a show ?thesis by (simp add: EnsureGitSetup_def)
qed

lemma remove_if_found_gone:
  assumes "\<forall>v f v'. os_Remove p v f = (None, v') \<longrightarrow> os_Stat p v' f \<noteq> StatOk"
    and "remove_if_found p f w = (None, v)"
  shows "os_Stat p v f \<noteq> StatOk"
proof (cases "os_Stat p w f = StatOk")
  case True
  with assms(2) have "os_Remove p w f = (None, v)" by (simp add: remove_if_found_def)
  with assms(1) show ?thesis by blast
next
  case False
  with assms(2) show ?thesis by (simp add: remove_if_found_def)
qed

lemma remove_if_found_keeps:
  assumes "\<forall>v f g. os_Stat p v g \<noteq> StatOk \<longrightarrow> os_Stat p (snd (os_Remove p v f)) g \<noteq> StatOk"
    and "os_Stat p w g \<noteq> StatOk"
  shows "os_Stat p (snd (remove_if_found p f w)) g \<noteq> StatOk"
  using assms by (simp add: remove_if_found_def)

lemma clear_locks_removes:
  assumes gone: "\<forall>v f v'. os_Remove p v f = (None, v') \<longrightarrow> os_Stat p v' f \<noteq> StatOk"
    and keeps: "\<forall>v f g. os_Stat p v g \<noteq> StatOk \<longrightarrow> os_Stat p (snd (os_Remove p v f)) g \<noteq> StatOk"
    and clear: "clear_locks p ops w = (None, w1)"
  shows "\<forall>f \<in> set (lockFiles p ops). os_Stat p w1 f \<noteq> StatOk"
proof -
  let ?i = "filepath_Join p [workingDir ops, ''.git'', ''index.lock'']"
  let ?h = "filepath_Join p [workingDir ops, ''.git'', ''HEAD.lock'']"
  obtain r1 v1 where a: "remove_if_found p ?i w = (r1, v1)"
    by (cases "remove_if_found p ?i w")
  obtain r2 v2 where b: "remove_if_found p ?h v1 = (r2, v2)"
    by (cases "remove_if_found p ?h v1")
  from clear a have r1: "r1 = None"
    by (cases r1) (simp_all add: clear_locks_def)
  from clear a b r1 have r2: "r2 = None" and w1: "w1 = v2"
    by (cases r2; simp add: clear_locks_def)+
  from a r1 have "os_Stat p v1 ?i \<noteq> StatOk"
    by (intro remove_if_found_gone [OF gone]) simp
  from remove_if_found_keeps [OF keeps this, of ?h] b
  have i: "os_Stat p v2 ?i \<noteq> StatOk" by simp
  from b r2 have h: "os_Stat p v2 ?h \<noteq> StatOk"
    by (intro remove_if_found_gone [OF gone]) simp
  from i h w1 show ?thesis by (simp add: lockFiles_def)
qed

lemma clear_locks_error:
  assumes "clear_locks p ops w = (Some err, w1)"
  shows "\<exists>f \<in> set (lockFiles p ops). \<exists>e. err = ''failed to remove lock file '' @ f @ '': '' @ e"
proof -
  from assms obtain ev where "cleanupLocks p ops w = (Some err, w1, ev)"
    by (rule clear_locks_cleanup)
  then have "fst (cleanupLocks_loop p (lockFiles p ops) w) = Some err"
    by (simp add: cleanupLocks_def)
  from cleanupLocks_loop_error [OF this] show ?thesis .
qed

lemma EnsureGitSetup_steps:
  assumes run: "EnsureGitSetup p ops repoName w = (res, w', ev)"
    and ready: "repository_ready p ops w = Some v"
    and config: "exec_Command p v (workingDir ops) ''git'' (config_args p) = (rc, w1)"
  shows "(\<forall>e. exit_err rc = Some e \<longrightarrow>
            res = Some (''failed to set git user.name: '' @ e) \<and> w' = w1)
     \<and> (exit_err rc = None \<longrightarrow>
          (\<forall>rg w2.
             exec_Command p w1 (workingDir ops) ''git'' [''remote'', ''get-url'', ''origin''] = (rg, w2)
             \<longrightarrow> (exit_err rg = None \<longrightarrow> res = None \<and> w' = w2)
               \<and> (exit_err rg \<noteq> None \<longrightarrow>
                    (\<forall>w3 ra w4.
                       clear_locks p ops w2 = (None, w3)
                       \<and> exec_Command p w3 (workingDir ops) ''git'' (add_args p repoName) = (ra, w4)
                       \<longrightarrow> res = map_option
                                   (\<lambda>e. ''failed to add remote origin: '' @ e @ '': '' @ combined ra)
                                   (exit_err ra)
                         \<and> w' = w4
                         \<and> (config_args p, True) \<in> set (outcomes ev)
                         \<and> (add_args p repoName, exit_err ra = None) \<in> set (outcomes ev))
                    \<and> (\<forall>err w3.
                         clear_locks p ops w2 = (Some err, w3)
                         \<longrightarrow> res = Some (''failed to add remote origin: '' @ err) \<and> w' = w3))))"
proof -
  from EnsureGitSetup_ready [OF ready, of repoName] run
  obtain pre where ends: "(res, w') = ends (ensureIdentityAndRemote p ops repoName v)"
    and ex: "execs ev = pre @ execs (snd (snd (ensureIdentityAndRemote p ops repoName v)))"
    by auto
  have failed: "res = Some (''failed to set git user.name: '' @ e) \<and> w' = w1"
    if "exit_err rc = Some e" for e
    using ensureIdentityAndRemote_config_fails [OF config that, of repoName] ends by simp
  have exists: "res = None \<and> w' = w2"
    if "exit_err rc = None"
      and "exec_Command p w1 (workingDir ops) ''git'' [''remote'', ''get-url'', ''origin''] = (rg, w2)"
      and "exit_err rg = None" for rg w2
    using ensureIdentityAndRemote_origin_exists [OF config that, of repoName] ends by simp
  have missing: "(res, w', execs ev)
      = (map_option (\<lambda>e. ''failed to add remote origin: '' @ e) (fst (attempt p ops (add_args p repoName) w2)),
         fst (snd (attempt p ops (add_args p repoName) w2)),
         pre @ [(workingDir ops, ''git'', config_args p, rc),
                (workingDir ops, ''git'', [''remote'', ''get-url'', ''origin''], rg)]
         @ snd (snd (attempt p ops (add_args p repoName) w2)))"
    if "exit_err rc = None"
      and "exec_Command p w1 (workingDir ops) ''git'' [''remote'', ''get-url'', ''origin''] = (rg, w2)"
      and "exit_err rg \<noteq> None" for rg w2
  proof -
    from that(3) obtain eg where "exit_err rg = Some eg" by (cases "exit_err rg") simp_all
    from ensureIdentityAndRemote_origin_missing [OF config that(1,2) this, of repoName] ends ex
    show ?thesis by simp
  qed
  have added: "res = map_option (\<lambda>e. ''failed to add remote origin: '' @ e @ '': '' @ combined ra)
                       (exit_err ra)
      \<and> w' = w4
      \<and> (config_args p, True) \<in> set (outcomes ev)
      \<and> (add_args p repoName, exit_err ra = None) \<in> set (outcomes ev)"
    if "exit_err rc = None"
      and "exec_Command p w1 (workingDir ops) ''git'' [''remote'', ''get-url'', ''origin''] = (rg, w2)"
      and "exit_err rg \<noteq> None"
      and "clear_locks p ops w2 = (None, w3)"
      and "exec_Command p w3 (workingDir ops) ''git'' (add_args p repoName) = (ra, w4)"
    for rg w2 w3 ra w4
    using missing [OF that(1,2,3)] attempt_ran [OF that(4,5)] that(1)
    by (cases "exit_err ra") (simp_all add: outcomes_execs)
  have blocked: "res = Some (''failed to add remote origin: '' @ err) \<and> w' = w3"
    if "exit_err rc = None"
      and "exec_Command p w1 (workingDir ops) ''git'' [''remote'', ''get-url'', ''origin''] = (rg, w2)"
      and "exit_err rg \<noteq> None"
      and "clear_locks p ops w2 = (Some err, w3)"
    for rg w2 err w3
    using missing [OF that(1,2,3)] attempt_blocked [OF that(4), of "add_args p repoName"]
    by simp
  show ?thesis
  proof (intro conjI allI impI)
    fix e assume "exit_err rc = Some e"
    from failed [OF this]
    show "res = Some (''failed to set git user.name: '' @ e)" and "w' = w1" by simp_all
  next
    fix rg w2
    assume "exit_err rc = None"
      and "exec_Command p w1 (workingDir ops) ''git'' [''remote'', ''get-url'', ''origin''] = (rg, w2)"
      and "exit_err rg = None"
    from exists [OF this] show "res = None" and "w' = w2" by simp_all
  next
    fix rg w2 w3 ra w4
    assume a: "exit_err rc = None"
      "exec_Command p w1 (workingDir ops) ''git'' [''remote'', ''get-url'', ''origin''] = (rg, w2)"
      "exit_err rg \<noteq> None"
      and b: "clear_locks p ops w2 = (None, w3)
        \<and> exec_Command p w3 (workingDir ops) ''git'' (add_args p repoName) = (ra, w4)"
    from added [OF a b [THEN conjunct1] b [THEN conjunct2]]
    show "res = map_option (\<lambda>e. ''failed to add remote origin: '' @ e @ '': '' @ combined ra)
                       (exit_err ra)"
      and "w' = w4"
      and "(config_args p, True) \<in> set (outcomes ev)"
      and "(add_args p repoName, exit_err ra = None) \<in> set (outcomes ev)"
      by simp_all
  next
    fix rg w2 err w3
    assume "exit_err rc = None"
      and "exec_Command p w1 (workingDir ops) ''git'' [''remote'', ''get-url'', ''origin''] = (rg, w2)"
      and "exit_err rg \<noteq> None"
      and "clear_locks p ops w2 = (Some err, w3)"
    from blocked [OF this]
    show "res = Some (''failed to add remote origin: '' @ err)" and "w' = w3" by simp_all
  qed
qed

section \<open>GetDiff\<close>

text \<open>
  Whenever \<^verbatim>\<open>git diff --cached\<close> returns without error, \<^verbatim>\<open>GetDiff\<close> returns what it
  printed, empty or not, and runs nothing else: \<^verbatim>\<open>git diff\<close> is reached only through the
  error of the first command.
\<close>

lemma GetDiff_staged_command_succeeds:
  assumes "exec_Command p w (workingDir ops) ''git'' [''diff'', ''--cached''] = (r1, w1)"
      and "exit_err r1 = None"
  shows "fst (GetDiff p ops w) = (stdout r1, None)
     \<and> fst (snd (GetDiff p ops w)) = w1
     \<and> commands (snd (snd (GetDiff p ops w))) = [(''git'', [''diff'', ''--cached''])]"
  using assms by (simp add: GetDiff_def)

lemma GetDiff_staged_command_fails:
  assumes "exec_Command p w (workingDir ops) ''git'' [''diff'', ''--cached''] = (r1, w1)"
      and "exit_err r1 \<noteq> None"
      and "exec_Command p w1 (workingDir ops) ''git'' [''diff''] = (r2, w2)"
      and "exit_err r2 = None"
  shows "fst (GetDiff p ops w) = (stdout r2, None)
     \<and> commands (snd (snd (GetDiff p ops w))) =
         [(''git'', [''diff'', ''--cached'']), (''git'', [''diff''])]"
  using assms by (auto simp: GetDiff_def split: option.splits)

text \<open>
  Claim C1.  With nothing staged and a modified tracked file, \<^verbatim>\<open>GetDiff\<close> should give
  the unstaged diff.  The code looks at the error of \<^verbatim>\<open>git diff --cached\<close>, not at its
  output: in the world \<open>unstaged_only\<close> that command succeeds and prints nothing, while
  \<^verbatim>\<open>git diff\<close> would print a diff.  \<^verbatim>\<open>GetDiff\<close> gives the empty text, no error, and
  never runs \<^verbatim>\<open>git diff\<close>.
\<close>

theorem GetDiff_nothing_staged_gives_empty_text:
  "exit_err (fst (exec_Command (sim []) unstaged_only ''/repo'' ''git'' [''diff'', ''--cached''])) = None
   \<and> stdout (fst (exec_Command (sim []) unstaged_only ''/repo'' ''git'' [''diff'', ''--cached''])) = []
   \<and> stdout (fst (exec_Command (sim []) unstaged_only ''/repo'' ''git'' [''diff'']))
        = ''diff --git a/README.md b/README.md''
   \<and> fst (GetDiff (sim []) repo unstaged_only) = ([], None)
   \<and> commands (snd (snd (GetDiff (sim []) repo unstaged_only))) = [(''git'', [''diff'', ''--cached''])]"
  by (simp add: GetDiff_def unstaged_only_def sim_defs)

text \<open>
  Claim C6.  \<^verbatim>\<open>GetDiff\<close> returns an error exactly when both diff commands fail, the
  error being that of the second; when nothing differs (both commands print nothing) and
  at least one of them succeeds, it returns the empty text and no error.
\<close>

theorem GetDiff_fails_only_if_both_fail:
  assumes "exec_Command p w (workingDir ops) ''git'' [''diff'', ''--cached''] = (r1, w1)"
      and "exec_Command p w1 (workingDir ops) ''git'' [''diff''] = (r2, w2)"
  shows "(snd (fst (GetDiff p ops w)) \<noteq> None) = (exit_err r1 \<noteq> None \<and> exit_err r2 \<noteq> None)
    \<and> (stdout r1 = [] \<and> stdout r2 = [] \<and> (exit_err r1 = None \<or> exit_err r2 = None)
         \<longrightarrow> fst (GetDiff p ops w) = ([], None))
    \<and> (\<forall>e. exit_err r1 \<noteq> None \<and> exit_err r2 = Some e
         \<longrightarrow> fst (GetDiff p ops w) = ([], Some (''failed to get diff: '' @ e)))"
  using assms by (auto simp: GetDiff_def split: option.splits)

theorem GetDiff_fails_only_if_both_fail_witness:
  "fst (GetDiff (sim []) repo no_repository) = ([], Some ''failed to get diff: exit status 128'')
   \<and> fst (GetDiff (sim []) repo plain) = ([], None)"
  using GetDiff_fails_only_if_both_fail [of "sim []" no_repository repo
      "fails ''exit status 129'' [] ''error: unknown option cached''" no_repository
      "fails ''exit status 128'' [] ''fatal: not a git repository''" no_repository]
    GetDiff_fails_only_if_both_fail [of "sim []" plain repo succeeded plain succeeded plain]
  by (simp add: no_repository_def sim_defs)

section \<open>Push\<close>

text \<open>
  Claim C8.  \<^verbatim>\<open>Push\<close> with an empty remote or branch is \<^verbatim>\<open>Push\<close> with \<^verbatim>\<open>origin\<close> or
  \<^verbatim>\<open>main\<close>.  When the check of the stale locks that precedes the command passes,
  leaving the world \<open>w1\<close>, the platform is asked to run
  \<^verbatim>\<open>git push -u <remote> <branch>\<close> with the resolved names in \<open>w1\<close>: \<^verbatim>\<open>Push\<close>
  returns the world that this command leaves, succeeds exactly when the command does,
  fails with the error and the output of the command otherwise, and has started this
  one command and no other.  When the check fails, \<^verbatim>\<open>Push\<close> fails with its error in
  the world the check leaves and has started no command.  In every case no command
  other than this push is started, and never more than one.
\<close>

theorem Push_defaults:
  "Push p ops remote branch w =
     Push p ops (if remote = [] then ''origin'' else remote)
                (if branch = [] then ''main'' else branch) w
   \<and> (\<forall>w1 r w2.
         clear_locks p ops w = (None, w1)
         \<and> exec_Command p w1 (workingDir ops) ''git''
             [''push'', ''-u'', if remote = [] then ''origin'' else remote,
              if branch = [] then ''main'' else branch] = (r, w2)
         \<longrightarrow> ends (Push p ops remote branch w)
               = (map_option (\<lambda>e. ''failed to push: '' @ e @ '': '' @ combined r) (exit_err r), w2)
             \<and> execs (snd (snd (Push p ops remote branch w)))
               = [(workingDir ops, ''git'',
                   [''push'', ''-u'', if remote = [] then ''origin'' else remote,
                    if branch = [] then ''main'' else branch], r)])
   \<and> (\<forall>err w1.
         clear_locks p ops w = (Some err, w1)
         \<longrightarrow> ends (Push p ops remote branch w) = (Some (''failed to push: '' @ err), w1)
             \<and> execs (snd (snd (Push p ops remote branch w))) = [])
   \<and> set (commands (snd (snd (Push p ops remote branch w)))) \<subseteq>
       {(''git'', [''push'', ''-u'', if remote = [] then ''origin'' else remote,
                   if branch = [] then ''main'' else branch])}
   \<and> length (commands (snd (snd (Push p ops remote branch w)))) \<le> 1
   \<and> (fst (cleanupLocks p ops w) = None \<longrightarrow>
        commands (snd (snd (Push p ops remote branch w))) =
          [(''git'', [''push'', ''-u'', if remote = [] then ''origin'' else remote,
                      if branch = [] then ''main'' else branch])])
   \<and> (fst (Push p ops remote branch w) = None \<longrightarrow>
        outcomes (snd (snd (Push p ops remote branch w))) =
          [([''push'', ''-u'', if remote = [] then ''origin'' else remote,
             if branch = [] then ''main'' else branch], True)])"
proof -
  let ?r = "if remote = [] then ''origin'' else remote"
  let ?b = "if branch = [] then ''main'' else branch"
  let ?P = "Push p ops remote branch w"
  have same: "?P = Push p ops ?r ?b w"
    by (simp add: Push_def)
  have ran: "\<forall>w1 r w2.
         clear_locks p ops w = (None, w1)
         \<and> exec_Command p w1 (workingDir ops) ''git'' [''push'', ''-u'', ?r, ?b] = (r, w2)
         \<longrightarrow> ends ?P
               = (map_option (\<lambda>e. ''failed to push: '' @ e @ '': '' @ combined r) (exit_err r), w2)
             \<and> execs (snd (snd ?P)) = [(workingDir ops, ''git'', [''push'', ''-u'', ?r, ?b], r)]"
  proof (intro allI impI, elim conjE)
    fix w1 r w2
    assume "clear_locks p ops w = (None, w1)"
      and "exec_Command p w1 (workingDir ops) ''git'' [''push'', ''-u'', ?r, ?b] = (r, w2)"
    from attempt_ran [OF this] Push_attempt [of p ops remote branch w]
    show "ends ?P
               = (map_option (\<lambda>e. ''failed to push: '' @ e @ '': '' @ combined r) (exit_err r), w2)
             \<and> execs (snd (snd ?P)) = [(workingDir ops, ''git'', [''push'', ''-u'', ?r, ?b], r)]"
      by (cases "exit_err r") simp_all
  qed
  have blocked: "\<forall>err w1.
         clear_locks p ops w = (Some err, w1)
         \<longrightarrow> ends ?P = (Some (''failed to push: '' @ err), w1) \<and> execs (snd (snd ?P)) = []"
  proof (intro allI impI)
    fix err w1
    assume "clear_locks p ops w = (Some err, w1)"
    from attempt_blocked [OF this] Push_attempt [of p ops remote branch w]
    show "ends ?P = (Some (''failed to push: '' @ err), w1) \<and> execs (snd (snd ?P)) = []"
      by simp
  qed
  have "commands (snd (snd ?P)) =
        commands (snd (snd (runCommand p ops ''git'' [''push'', ''-u'', ?r, ?b] w)))"
    by (simp add: Push_def Let_def case_prod_beta split: option.splits)
  then have cmds: "commands (snd (snd ?P)) =
      (if fst (cleanupLocks p ops w) = None then [(''git'', [''push'', ''-u'', ?r, ?b])] else [])"
    by (simp only: runCommand_commands)
  obtain res w' ev where run: "?P = (res, w', ev)"
    by (cases ?P)
  have ok: "outcomes ev = [([''push'', ''-u'', ?r, ?b], True)]" if "res = None"
    using run
  proof (cases rule: Push_execs)
    case (1 res1 ev1)
    from 1(1) show ?thesis
    proof (cases rule: runCommand_execs)
      case (blocked err)
      with 1 that show ?thesis by simp
    next
      case (ran w1 ev0 r)
      with 1 that show ?thesis by (cases "exit_err r") (simp_all add: outcomes_execs)
    qed
  qed
  from cmds have "set (commands (snd (snd ?P))) \<subseteq> {(''git'', [''push'', ''-u'', ?r, ?b])}
   \<and> length (commands (snd (snd ?P))) \<le> 1
   \<and> (fst (cleanupLocks p ops w) = None \<longrightarrow>
        commands (snd (snd ?P)) = [(''git'', [''push'', ''-u'', ?r, ?b])])"
    by auto
  moreover from ok run have "fst ?P = None \<longrightarrow>
        outcomes (snd (snd ?P)) = [([''push'', ''-u'', ?r, ?b], True)]"
    by simp
  moreover note same ran blocked
  ultimately show ?thesis by blast
qed

theorem Push_defaults_witness:
  "clear_locks (sim []) repo stale_lock = (None, plain)
   \<and> exec_Command (sim []) plain ''/repo'' ''git'' [''push'', ''-u'', ''origin'', ''main'']
       = (succeeded, plain)
   \<and> ends (Push (sim []) repo [] [] stale_lock) = (None, plain)
   \<and> execs (snd (snd (Push (sim []) repo [] [] stale_lock)))
       = [(''/repo'', ''git'', [''push'', ''-u'', ''origin'', ''main''], succeeded)]
   \<and> clear_locks (sim []) repo stuck_lock
       = (Some ''failed to remove lock file /repo/.git/index.lock: operation not permitted'',
          stuck_lock)
   \<and> ends (Push (sim []) repo [] [] stuck_lock)
       = (Some ''failed to push: failed to remove lock file /repo/.git/index.lock: operation not permitted'',
          stuck_lock)
   \<and> execs (snd (snd (Push (sim []) repo [] [] stuck_lock))) = []"
proof -
  have cl: "clear_locks (sim []) repo stale_lock = (None, plain)"
    by (simp add: clear_locks_def remove_if_found_def stale_lock_def plain_def sim_defs)
  have ex: "exec_Command (sim []) plain (workingDir repo) ''git''
      [''push'', ''-u'', if [] = ([]::string) then ''origin'' else [],
       if [] = ([]::string) then ''main'' else []] = (succeeded, plain)"
    by (simp add: plain_def sim_defs)
  have st: "clear_locks (sim []) repo stuck_lock
       = (Some ''failed to remove lock file /repo/.git/index.lock: operation not permitted'',
          stuck_lock)"
    by (simp add: clear_locks_def remove_if_found_def stuck_lock_def plain_def sim_defs)
  note ran = Push_defaults [where p = "sim []" and ops = repo and remote = "[]" and branch = "[]"
      and w = stale_lock, THEN conjunct2, THEN conjunct1, rule_format, OF conjI [OF cl ex]]
  note blocked = Push_defaults [where p = "sim []" and ops = repo and remote = "[]"
      and branch = "[]" and w = stuck_lock, THEN conjunct2, THEN conjunct2, THEN conjunct1,
      rule_format, OF st]
  from ran blocked cl ex st show ?thesis by (simp add: succeeded_def)
qed

section \<open>Commit\<close>

text \<open>
  Claim C9.  No rollback: when \<^verbatim>\<open>StageAll\<close> has succeeded and \<^verbatim>\<open>Commit\<close> then fails,
  the staged changes are what they were before \<^verbatim>\<open>Commit\<close>, and \<^verbatim>\<open>Commit\<close> has run no
  command but (at most once) \<^verbatim>\<open>git commit -m <message>\<close>.  The staged changes are an
  observation \<open>staged\<close> of the world; what is assumed of the platform is that removing a
  lock file and a failing \<^verbatim>\<open>git commit\<close> leave them as they are.
\<close>

theorem Commit_no_rollback:
  assumes "StageAll p ops w0 = (None, w, ev0)"
      and "Commit p ops message w = (Some err, w', ev)"
      and "\<forall>v f. f \<in> set (lockFiles p ops) \<longrightarrow> staged (snd (os_Remove p v f)) = staged v"
      and "\<forall>v r v'. exec_Command p v (workingDir ops) ''git'' [''commit'', ''-m'', message] = (r, v')
             \<and> exit_err r \<noteq> None \<longrightarrow> staged v' = staged v"
  shows "staged w' = staged w
     \<and> set (commands ev) \<subseteq> {(''git'', [''commit'', ''-m'', message])}
     \<and> length (commands ev) \<le> 1"
proof -
  obtain res w1 ev1 where rc: "runCommand p ops ''git'' [''commit'', ''-m'', message] w = (res, w1, ev1)"
    by (cases "runCommand p ops ''git'' [''commit'', ''-m'', message] w")
  with assms(2) have w': "w' = w1" and res: "res \<noteq> None"
    and ev: "commands ev = commands ev1"
    by (auto simp: Commit_def split: option.splits)
  have frame: "staged (fst (snd (cleanupLocks p ops w))) = staged w"
    unfolding cleanupLocks_def using assms(3) by (rule cleanupLocks_loop_frame)
  have "staged w1 = staged w"
    using rc
  proof (cases rule: runCommand_cases)
    case (lock e)
    with frame show ?thesis by simp
  next
    case (ran w2 ev2 r)
    with res have "exit_err r \<noteq> None" by auto
    with ran(2) assms(4) have "staged w1 = staged w2" by blast
    with frame ran(1) show ?thesis by simp
  qed
  moreover have "commands ev1 = (if fst (cleanupLocks p ops w) = None
      then [(''git'', [''commit'', ''-m'', message])] else [])"
    using runCommand_commands [of p ops "[''commit'', ''-m'', message]" w] rc by simp
  ultimately show ?thesis using w' ev by auto
qed

theorem Commit_no_rollback_witness:
  "fst (StageAll (sim []) repo commit_rejected) = None
   \<and> fst (Commit (sim []) repo ''msg'' commit_rejected)
        = Some ''failed to commit: exit status 1: pre-commit hook declined''
   \<and> sim_staged (fst (snd (Commit (sim []) repo ''msg'' commit_rejected))) = [''a.txt'']
   \<and> set (commands (snd (snd (Commit (sim []) repo ''msg'' commit_rejected))))
        \<subseteq> {(''git'', [''commit'', ''-m'', ''msg''])}
   \<and> length (commands (snd (snd (Commit (sim []) repo ''msg'' commit_rejected)))) \<le> 1"
proof -
  have s1: "fst (StageAll (sim []) repo commit_rejected) = None"
    and s2: "fst (snd (StageAll (sim []) repo commit_rejected)) = commit_rejected"
    by (simp_all add: StageAll_def runCommand_def cleanupLocks_def lockFiles_def verifyStaged_def
          commit_rejected_def sim_defs)
  have c1: "fst (Commit (sim []) repo ''msg'' commit_rejected)
        = Some ''failed to commit: exit status 1: pre-commit hook declined''"
    and c2: "fst (snd (Commit (sim []) repo ''msg'' commit_rejected)) = commit_rejected"
    by (simp_all add: Commit_def runCommand_def cleanupLocks_def lockFiles_def
          commit_rejected_def sim_defs)
  have stage: "StageAll (sim []) repo commit_rejected =
      (None, commit_rejected, snd (snd (StageAll (sim []) repo commit_rejected)))"
    using s1 s2 by (metis prod.collapse)
  have commit: "Commit (sim []) repo ''msg'' commit_rejected =
      (Some ''failed to commit: exit status 1: pre-commit hook declined'', commit_rejected,
       snd (snd (Commit (sim []) repo ''msg'' commit_rejected)))"
    using c1 c2 by (metis prod.collapse)
  have rm: "\<forall>v f. f \<in> set (lockFiles (sim []) repo) \<longrightarrow>
      sim_staged (snd (os_Remove (sim []) v f)) = sim_staged v"
    by (simp add: sim_Remove_def)
  have ex: "\<forall>v r v'. exec_Command (sim []) v (workingDir repo) ''git'' [''commit'', ''-m'', ''msg''] = (r, v')
      \<and> exit_err r \<noteq> None \<longrightarrow> sim_staged v' = sim_staged v"
    by (auto simp: sim_exec_def succeeded_def split: option.splits)
  have st: "sim_staged commit_rejected = [''a.txt'']"
    by (simp add: commit_rejected_def)
  note Commit_no_rollback [OF stage commit rm ex]
  with s1 c1 c2 st show ?thesis by simp
qed

section \<open>EnsureGitSetup\<close>



text \<open>
  Claim C7.  Once the repository is there and the identity is configured,
  \<^verbatim>\<open>EnsureGitSetup\<close> asks the platform for \<^verbatim>\<open>git remote get-url origin\<close>.  When that
  command succeeds (the remote exists) the call succeeds in the world it leaves, and no
  remote is added.  When it fails (no such remote) and the check of the stale locks
  passes, the platform is asked to run
  \<^verbatim>\<open>git remote add origin https://github.com/<account>/<repoName>.git\<close>, the account
  read from the environment, in the world that the check leaves: the call returns the
  world that this command leaves and succeeds exactly when the command does.  When the
  check fails the call fails with its error.  On the events: the only remote ever added
  is \<^verbatim>\<open>origin\<close> with that URL, and a failed \<^verbatim>\<open>get-url\<close> with no failed removal of a
  lock file is followed by that \<^verbatim>\<open>remote add\<close>.
\<close>

theorem EnsureGitSetup_remote:
  assumes "EnsureGitSetup p ops repoName w = (res, w', ev)"
  shows "(\<forall>v rc w1.
            repository_ready p ops w = Some v
            \<and> exec_Command p v (workingDir ops) ''git'' (config_args p) = (rc, w1)
            \<longrightarrow> (\<forall>e. exit_err rc = Some e \<longrightarrow>
                     res = Some (''failed to set git user.name: '' @ e) \<and> w' = w1)
              \<and> (exit_err rc = None \<longrightarrow>
                   (\<forall>rg w2.
                      exec_Command p w1 (workingDir ops) ''git'' [''remote'', ''get-url'', ''origin'']
                        = (rg, w2)
                      \<longrightarrow> (exit_err rg = None \<longrightarrow> res = None \<and> w' = w2)
                        \<and> (exit_err rg \<noteq> None \<longrightarrow>
                             (\<forall>w3 ra w4.
                                clear_locks p ops w2 = (None, w3)
                                \<and> exec_Command p w3 (workingDir ops) ''git''
                                    [''remote'', ''add'', ''origin'',
                                     ''https://github.com/'' @ os_Getenv p ''GITHUB_USERNAME''
                                       @ ''/'' @ repoName @ ''.git''] = (ra, w4)
                                \<longrightarrow> res = map_option
                                            (\<lambda>e. ''failed to add remote origin: '' @ e @ '': ''
                                                   @ combined ra)
                                            (exit_err ra)
                                  \<and> w' = w4
                                  \<and> (config_args p, True) \<in> set (outcomes ev)
                                  \<and> ([''remote'', ''add'', ''origin'',
                                       ''https://github.com/'' @ os_Getenv p ''GITHUB_USERNAME''
                                         @ ''/'' @ repoName @ ''.git''], exit_err ra = None)
                                      \<in> set (outcomes ev))
                             \<and> (\<forall>err w3.
                                  clear_locks p ops w2 = (Some err, w3)
                                  \<longrightarrow> res = Some (''failed to add remote origin: '' @ err)
                                    \<and> w' = w3)))))
     \<and> ((\<forall>(name, args) \<in> set (commands ev). take 2 args = [''remote'', ''add'']
            \<longrightarrow> name = ''git'' \<and> args = [''remote'', ''add'', ''origin'',
                  ''https://github.com/'' @ os_Getenv p ''GITHUB_USERNAME'' @ ''/'' @ repoName @ ''.git''])
     \<and> (([''remote'', ''get-url'', ''origin''], False) \<in> set (outcomes ev) \<and> lock_failures ev = []
          \<longrightarrow> (res = None \<longrightarrow>
                 ([''remote'', ''add'', ''origin'',
                   ''https://github.com/'' @ os_Getenv p ''GITHUB_USERNAME'' @ ''/'' @ repoName @ ''.git''], True)
                   \<in> set (outcomes ev))
            \<and> (res \<noteq> None \<longrightarrow>
                 ([''remote'', ''add'', ''origin'',
                   ''https://github.com/'' @ os_Getenv p ''GITHUB_USERNAME'' @ ''/'' @ repoName @ ''.git''], False)
                   \<in> set (outcomes ev)))
     \<and> (res = None \<and> ([''remote'', ''get-url'', ''origin''], False) \<in> set (outcomes ev)
          \<longrightarrow> ([''remote'', ''add'', ''origin'',
                  ''https://github.com/'' @ os_Getenv p ''GITHUB_USERNAME'' @ ''/'' @ repoName @ ''.git''], True)
                \<in> set (outcomes ev))
     \<and> (([''remote'', ''get-url'', ''origin''], True) \<in> set (outcomes ev)
          \<longrightarrow> (\<forall>(name, args) \<in> set (commands ev). take 2 args \<noteq> [''remote'', ''add''])))"
    (is "?steps \<and> ?events")
proof -
  have steps: ?steps
  proof (intro allI impI, elim conjE)
    fix v rc w1
    assume "repository_ready p ops w = Some v"
      and "exec_Command p v (workingDir ops) ''git'' (config_args p) = (rc, w1)"
    from EnsureGitSetup_steps [OF assms this]
    show "(\<forall>e. exit_err rc = Some e \<longrightarrow>
                     res = Some (''failed to set git user.name: '' @ e) \<and> w' = w1)
              \<and> (exit_err rc = None \<longrightarrow>
                   (\<forall>rg w2.
                      exec_Command p w1 (workingDir ops) ''git'' [''remote'', ''get-url'', ''origin'']
                        = (rg, w2)
                      \<longrightarrow> (exit_err rg = None \<longrightarrow> res = None \<and> w' = w2)
                        \<and> (exit_err rg \<noteq> None \<longrightarrow>
                             (\<forall>w3 ra w4.
                                clear_locks p ops w2 = (None, w3)
                                \<and> exec_Command p w3 (workingDir ops) ''git''
                                    (add_args p repoName) = (ra, w4)
                                \<longrightarrow> res = map_option
                                            (\<lambda>e. ''failed to add remote origin: '' @ e @ '': ''
                                                   @ combined ra)
                                            (exit_err ra)
                                  \<and> w' = w4
                                  \<and> (config_args p, True) \<in> set (outcomes ev)
                                  \<and> (add_args p repoName, exit_err ra = None)
                                      \<in> set (outcomes ev))
                             \<and> (\<forall>err w3.
                                  clear_locks p ops w2 = (Some err, w3)
                                  \<longrightarrow> res = Some (''failed to add remote origin: '' @ err)
                                    \<and> w' = w3))))" .
  qed
  have step: ?events
    if "ensureIdentityAndRemote p ops repoName v = (res, w', ev2)"
      and "execs ev = pre @ execs ev2" and "pre = [] \<or> pre = [(workingDir ops, ''git'', [''init''], r0)]"
      and "lock_failures ev = lock_failures ev2"
    for v ev2 pre r0
    using that(1)
  proof (cases rule: ensureIdentityAndRemote_execs)
    case (config_failed r e)
    with that(2,3,4) show ?thesis by (elim disjE; simp add: commands_execs outcomes_execs)
  next
    case (origin_exists r w1 r2)
    with that(2,3,4) show ?thesis by (elim disjE; simp add: commands_execs outcomes_execs)
  next
    case (add_blocked r w1 r2 w2 err ev2)
    with that(2,3,4) show ?thesis by (elim disjE; simp add: commands_execs outcomes_execs)
  next
    case (add_ran r w1 r2 w2 w3 ev2 r3)
    with that(2,3,4) show ?thesis
      by (elim disjE; cases "exit_err r3"; simp add: commands_execs outcomes_execs)
  qed
  from assms have events: ?events
  proof (cases rule: EnsureGitSetup_execs)
    case (init_blocked err ev1)
    then show ?thesis by (simp add: commands_execs outcomes_execs)
  next
    case (init_failed w1 ev1 r0 e)
    then show ?thesis by (simp add: commands_execs outcomes_execs)
  next
    case (initialized w1 ev1 r0 w2 ev2)
    then show ?thesis by (intro step [of w2 ev2 "[(workingDir ops, ''git'', [''init''], r0)]" r0]) simp_all
  next
    case (present ev2)
    then show ?thesis by (intro step [of w ev2 "[]"]) simp_all
  qed
  show ?thesis by (rule conjI [OF steps events])
qed

theorem EnsureGitSetup_remote_witness:
  "repository_ready (sim octocat) repo fresh = Some (fresh\<lparr>sim_files := [''/repo/.git'']\<rparr>)
   \<and> exec_Command (sim octocat) (fresh\<lparr>sim_files := [''/repo/.git'']\<rparr>) ''/repo'' ''git''
       [''remote'', ''get-url'', ''origin'']
       = (fails ''exit status 2'' [] ''error: No such remote origin'',
          fresh\<lparr>sim_files := [''/repo/.git'']\<rparr>)
   \<and> clear_locks (sim octocat) repo (fresh\<lparr>sim_files := [''/repo/.git'']\<rparr>)
       = (None, fresh\<lparr>sim_files := [''/repo/.git'']\<rparr>)
   \<and> exec_Command (sim octocat) (fresh\<lparr>sim_files := [''/repo/.git'']\<rparr>) ''/repo'' ''git''
       [''remote'', ''add'', ''origin'', ''https://github.com/octocat/demo.git'']
       = (succeeded, fresh\<lparr>sim_files := [''/repo/.git'']\<rparr>)
   \<and> ends (EnsureGitSetup (sim octocat) repo ''demo'' fresh)
       = (None, fresh\<lparr>sim_files := [''/repo/.git'']\<rparr>)
   \<and> ([''remote'', ''add'', ''origin'', ''https://github.com/octocat/demo.git''], True)
        \<in> set (outcomes (snd (snd (EnsureGitSetup (sim octocat) repo ''demo'' fresh))))"
proof -
  let ?E = "EnsureGitSetup (sim octocat) repo ''demo'' fresh"
  let ?v = "fresh\<lparr>sim_files := [''/repo/.git'']\<rparr>"
  have run: "?E = (fst ?E, fst (snd ?E), snd (snd ?E))" by simp
  have ready: "repository_ready (sim octocat) repo fresh = Some ?v"
    by (simp add: repository_ready_def attempt_def clear_locks_def remove_if_found_def
          fresh_def plain_def sim_defs succeeded_def)
  have config: "exec_Command (sim octocat) ?v (workingDir repo) ''git'' (config_args (sim octocat))
      = (succeeded, ?v)"
    by (simp add: fresh_def plain_def sim_defs octocat_def)
  have ok: "exit_err succeeded = None" by (simp add: succeeded_def)
  have geturl: "exec_Command (sim octocat) ?v (workingDir repo) ''git''
      [''remote'', ''get-url'', ''origin'']
      = (fails ''exit status 2'' [] ''error: No such remote origin'', ?v)"
    by (simp add: fresh_def plain_def sim_defs fails_def)
  have miss: "exit_err (fails ''exit status 2'' [] ''error: No such remote origin'') \<noteq> None"
    by (simp add: fails_def)
  have clear: "clear_locks (sim octocat) repo ?v = (None, ?v)"
    by (simp add: clear_locks_def remove_if_found_def fresh_def plain_def sim_defs)
  have add: "exec_Command (sim octocat) ?v (workingDir repo) ''git''
      [''remote'', ''add'', ''origin'',
       ''https://github.com/'' @ os_Getenv (sim octocat) ''GITHUB_USERNAME'' @ ''/'' @ ''demo'' @ ''.git'']
      = (succeeded, ?v)"
    by (simp add: fresh_def plain_def sim_defs octocat_def)
  note registered = EnsureGitSetup_remote [OF run, THEN conjunct1, rule_format,
      OF conjI [OF ready config], THEN conjunct2, rule_format, OF ok geturl,
      THEN conjunct2, rule_format, OF miss, THEN conjunct1, rule_format,
      OF conjI [OF clear add]]
  then have "ends ?E = (None, ?v)"
    and "([''remote'', ''add'', ''origin'', ''https://github.com/octocat/demo.git''], True)
        \<in> set (outcomes (snd (snd ?E)))"
    by (simp_all add: ok sim_Getenv_def octocat_def)
  with ready geturl clear add show ?thesis by (simp add: sim_Getenv_def octocat_def)
qed

text \<open>
  Claim C10.  With \<^verbatim>\<open>GITHUB_USERNAME\<close> unset or empty, \<^verbatim>\<open>EnsureGitSetup\<close> does not
  check the account.  Once the repository is there it asks the platform to set the
  identity to the empty string, and fails at that step only when that command fails.
  When \<^verbatim>\<open>git remote get-url origin\<close> then fails (no such remote) and the check of the
  stale locks passes, it asks the platform to run
  \<^verbatim>\<open>git remote add origin https://github.com//<repoName>.git\<close>, returns the world that
  this command leaves, and succeeds exactly when the command does.  So the call fails
  only when the initialization fails, a command fails or the removal of a lock file
  fails: never for the account being empty.
\<close>

theorem EnsureGitSetup_empty_account:
  assumes "os_Getenv p ''GITHUB_USERNAME'' = []"
    and "EnsureGitSetup p ops repoName w = (res, w', ev)"
  shows "(\<forall>v rc w1.
            repository_ready p ops w = Some v
            \<and> exec_Command p v (workingDir ops) ''git''
                [''config'', ''--global'', ''user.name'', []] = (rc, w1)
            \<longrightarrow> (\<forall>e. exit_err rc = Some e \<longrightarrow>
                     res = Some (''failed to set git user.name: '' @ e) \<and> w' = w1)
              \<and> (exit_err rc = None \<longrightarrow>
                   (\<forall>rg w2.
                      exec_Command p w1 (workingDir ops) ''git'' [''remote'', ''get-url'', ''origin'']
                        = (rg, w2)
                      \<longrightarrow> (exit_err rg = None \<longrightarrow> res = None \<and> w' = w2)
                        \<and> (exit_err rg \<noteq> None \<longrightarrow>
                             (\<forall>w3 ra w4.
                                clear_locks p ops w2 = (None, w3)
                                \<and> exec_Command p w3 (workingDir ops) ''git''
                                    [''remote'', ''add'', ''origin'',
                                     ''https://github.com//'' @ repoName @ ''.git''] = (ra, w4)
                                \<longrightarrow> res = map_option
                                            (\<lambda>e. ''failed to add remote origin: '' @ e @ '': ''
                                                   @ combined ra)
                                            (exit_err ra)
                                  \<and> w' = w4
                                  \<and> ([''config'', ''--global'', ''user.name'', []], True)
                                      \<in> set (outcomes ev)
                                  \<and> ([''remote'', ''add'', ''origin'',
                                       ''https://github.com//'' @ repoName @ ''.git''],
                                      exit_err ra = None) \<in> set (outcomes ev))
                             \<and> (\<forall>err w3.
                                  clear_locks p ops w2 = (Some err, w3)
                                  \<longrightarrow> res = Some (''failed to add remote origin: '' @ err)
                                    \<and> w' = w3)))))
     \<and> (repository_ready p ops w = None
          \<longrightarrow> (\<exists>e. res = Some (''failed to initialize git repository: '' @ e)))
     \<and> ((\<forall>(name, args) \<in> set (commands ev). take 1 args = [''config'']
            \<longrightarrow> args = [''config'', ''--global'', ''user.name'', []])
     \<and> (res = None \<longrightarrow> ([''config'', ''--global'', ''user.name'', []], True) \<in> set (outcomes ev))
     \<and> (res = None \<and> ([''remote'', ''get-url'', ''origin''], False) \<in> set (outcomes ev)
          \<longrightarrow> ([''remote'', ''add'', ''origin'', ''https://github.com//'' @ repoName @ ''.git''], True)
                \<in> set (outcomes ev))
     \<and> (([''remote'', ''get-url'', ''origin''], False) \<in> set (outcomes ev) \<and> lock_failures ev = []
          \<longrightarrow> (res = None \<longrightarrow>
                 ([''remote'', ''add'', ''origin'', ''https://github.com//'' @ repoName @ ''.git''], True)
                   \<in> set (outcomes ev))
            \<and> (res \<noteq> None \<longrightarrow>
                 ([''remote'', ''add'', ''origin'', ''https://github.com//'' @ repoName @ ''.git''], False)
                   \<in> set (outcomes ev)))
     \<and> (res \<noteq> None \<longrightarrow> lock_failures ev \<noteq> [] \<or> (\<exists>(args, ok) \<in> set (outcomes ev). \<not> ok)))"
    (is "?steps \<and> ?init \<and> ?events")
proof -
  have empty: "config_args p = [''config'', ''--global'', ''user.name'', []]"
    "add_args p repoName = [''remote'', ''add'', ''origin'', ''https://github.com//'' @ repoName @ ''.git'']"
    by (simp_all add: assms(1))
  have steps: ?steps
  proof (intro allI impI, elim conjE)
    fix v rc w1
    assume ready: "repository_ready p ops w = Some v"
      and "exec_Command p v (workingDir ops) ''git''
                [''config'', ''--global'', ''user.name'', []] = (rc, w1)"
    then have "exec_Command p v (workingDir ops) ''git'' (config_args p) = (rc, w1)"
      by (simp only: empty)
    from EnsureGitSetup_steps [OF assms(2) ready this]
    show "(\<forall>e. exit_err rc = Some e \<longrightarrow>
                     res = Some (''failed to set git user.name: '' @ e) \<and> w' = w1)
              \<and> (exit_err rc = None \<longrightarrow>
                   (\<forall>rg w2.
                      exec_Command p w1 (workingDir ops) ''git'' [''remote'', ''get-url'', ''origin'']
                        = (rg, w2)
                      \<longrightarrow> (exit_err rg = None \<longrightarrow> res = None \<and> w' = w2)
                        \<and> (exit_err rg \<noteq> None \<longrightarrow>
                             (\<forall>w3 ra w4.
                                clear_locks p ops w2 = (None, w3)
                                \<and> exec_Command p w3 (workingDir ops) ''git''
                                    [''remote'', ''add'', ''origin'',
                                     ''https://github.com//'' @ repoName @ ''.git''] = (ra, w4)
                                \<longrightarrow> res = map_option
                                            (\<lambda>e. ''failed to add remote origin: '' @ e @ '': ''
                                                   @ combined ra)
                                            (exit_err ra)
                                  \<and> w' = w4
                                  \<and> ([''config'', ''--global'', ''user.name'', []], True)
                                      \<in> set (outcomes ev)
                                  \<and> ([''remote'', ''add'', ''origin'',
                                       ''https://github.com//'' @ repoName @ ''.git''],
                                      exit_err ra = None) \<in> set (outcomes ev))
                             \<and> (\<forall>err w3.
                                  clear_locks p ops w2 = (Some err, w3)
                                  \<longrightarrow> res = Some (''failed to add remote origin: '' @ err)
                                    \<and> w' = w3))))"
      by (simp only: empty)
  qed
  have init: ?init
  proof
    assume "repository_ready p ops w = None"
    from EnsureGitSetup_not_ready [OF this, of repoName] assms(2)
    show "\<exists>e. res = Some (''failed to initialize git repository: '' @ e)" by auto
  qed
  have step: ?events
    if "ensureIdentityAndRemote p ops repoName v = (res, w', ev2)"
      and "execs ev = pre @ execs ev2" and "pre = [] \<or> pre = [(workingDir ops, ''git'', [''init''], r0)]"
      and "lock_failures ev = lock_failures ev2"
    for v ev2 pre r0
    using that(1)
  proof (cases rule: ensureIdentityAndRemote_execs)
    case (config_failed r e)
    with that(2,3,4) assms(1) show ?thesis
      by (elim disjE; simp add: commands_execs outcomes_execs)
  next
    case (origin_exists r w1 r2)
    with that(2,3,4) assms(1) show ?thesis
      by (elim disjE; simp add: commands_execs outcomes_execs)
  next
    case (add_blocked r w1 r2 w2 err ev2)
    with that(2,3,4) assms(1) show ?thesis
      by (elim disjE; simp add: commands_execs outcomes_execs)
  next
    case (add_ran r w1 r2 w2 w3 ev2 r3)
    with that(2,3,4) assms(1) show ?thesis
      by (elim disjE; cases "exit_err r3"; simp add: commands_execs outcomes_execs)
  qed
  from assms(2) have events: ?events
  proof (cases rule: EnsureGitSetup_execs)
    case (init_blocked err ev1)
    then show ?thesis by (simp add: commands_execs outcomes_execs)
  next
    case (init_failed w1 ev1 r0 e)
    then show ?thesis by (simp add: commands_execs outcomes_execs)
  next
    case (initialized w1 ev1 r0 w2 ev2)
    then show ?thesis by (intro step [of w2 ev2 "[(workingDir ops, ''git'', [''init''], r0)]" r0]) simp_all
  next
    case (present ev2)
    then show ?thesis by (intro step [of w ev2 "[]"]) simp_all
  qed
  show ?thesis by (rule conjI [OF steps conjI [OF init events]])
qed

theorem EnsureGitSetup_empty_account_witness:
  "os_Getenv (sim []) ''GITHUB_USERNAME'' = []
   \<and> repository_ready (sim []) repo fresh = Some (fresh\<lparr>sim_files := [''/repo/.git'']\<rparr>)
   \<and> exec_Command (sim []) (fresh\<lparr>sim_files := [''/repo/.git'']\<rparr>) ''/repo'' ''git''
       [''config'', ''--global'', ''user.name'', []]
       = (succeeded, fresh\<lparr>sim_files := [''/repo/.git'']\<rparr>)
   \<and> exec_Command (sim []) (fresh\<lparr>sim_files := [''/repo/.git'']\<rparr>) ''/repo'' ''git''
       [''remote'', ''get-url'', ''origin'']
       = (fails ''exit status 2'' [] ''error: No such remote origin'',
          fresh\<lparr>sim_files := [''/repo/.git'']\<rparr>)
   \<and> exec_Command (sim []) (fresh\<lparr>sim_files := [''/repo/.git'']\<rparr>) ''/repo'' ''git''
       [''remote'', ''add'', ''origin'', ''https://github.com//demo.git'']
       = (succeeded, fresh\<lparr>sim_files := [''/repo/.git'']\<rparr>)
   \<and> ends (EnsureGitSetup (sim []) repo ''demo'' fresh)
       = (None, fresh\<lparr>sim_files := [''/repo/.git'']\<rparr>)
   \<and> ([''config'', ''--global'', ''user.name'', []], True)
        \<in> set (outcomes (snd (snd (EnsureGitSetup (sim []) repo ''demo'' fresh))))
   \<and> ([''remote'', ''add'', ''origin'', ''https://github.com//demo.git''], True)
        \<in> set (outcomes (snd (snd (EnsureGitSetup (sim []) repo ''demo'' fresh))))"
proof -
  let ?E = "EnsureGitSetup (sim []) repo ''demo'' fresh"
  let ?v = "fresh\<lparr>sim_files := [''/repo/.git'']\<rparr>"
  have unset: "os_Getenv (sim []) ''GITHUB_USERNAME'' = []"
    by (simp add: sim_Getenv_def)
  have run: "?E = (fst ?E, fst (snd ?E), snd (snd ?E))" by simp
  have ready: "repository_ready (sim []) repo fresh = Some ?v"
    by (simp add: repository_ready_def attempt_def clear_locks_def remove_if_found_def
          fresh_def plain_def sim_defs succeeded_def)
  have config: "exec_Command (sim []) ?v (workingDir repo) ''git''
      [''config'', ''--global'', ''user.name'', []] = (succeeded, ?v)"
    by (simp add: fresh_def plain_def sim_defs)
  have ok: "exit_err succeeded = None" by (simp add: succeeded_def)
  have geturl: "exec_Command (sim []) ?v (workingDir repo) ''git''
      [''remote'', ''get-url'', ''origin'']
      = (fails ''exit status 2'' [] ''error: No such remote origin'', ?v)"
    by (simp add: fresh_def plain_def sim_defs fails_def)
  have miss: "exit_err (fails ''exit status 2'' [] ''error: No such remote origin'') \<noteq> None"
    by (simp add: fails_def)
  have clear: "clear_locks (sim []) repo ?v = (None, ?v)"
    by (simp add: clear_locks_def remove_if_found_def fresh_def plain_def sim_defs)
  have add: "exec_Command (sim []) ?v (workingDir repo) ''git''
      [''remote'', ''add'', ''origin'', ''https://github.com//'' @ ''demo'' @ ''.git'']
      = (succeeded, ?v)"
    by (simp add: fresh_def plain_def sim_defs)
  note registered = EnsureGitSetup_empty_account [OF unset run, THEN conjunct1, rule_format,
      OF conjI [OF ready config], THEN conjunct2, rule_format, OF ok geturl,
      THEN conjunct2, rule_format, OF miss, THEN conjunct1, rule_format,
      OF conjI [OF clear add]]
  then have "ends ?E = (None, ?v)"
    and "([''config'', ''--global'', ''user.name'', []], True) \<in> set (outcomes (snd (snd ?E)))"
    and "([''remote'', ''add'', ''origin'', ''https://github.com//demo.git''], True)
        \<in> set (outcomes (snd (snd ?E)))"
    by (simp_all add: ok)
  with unset ready config geturl add show ?thesis by simp
qed

section \<open>StageAll\<close>

text \<open>
  Claim C3.  \<^verbatim>\<open>StageAll\<close> asks the platform to run \<^verbatim>\<open>git add -A\<close> in the world that
  the check of the stale locks leaves; when that command succeeds, it asks for
  \<^verbatim>\<open>git status --porcelain\<close> in the world that the staging leaves, returns the world
  that the status query leaves, and has started these two commands and no other.  When
  the first attempt fails (its check or its command), the second attempt,
  \<^verbatim>\<open>git add <dir>\<close>, is made in the world the first leaves, and the status is queried
  in the world that a successful second attempt leaves; when the second attempt fails
  too, \<^verbatim>\<open>StageAll\<close> fails with its error, and no status is queried.  Once the status
  has been queried the verdict is its own: an error of the status command is returned
  as such, an empty output is \<^verbatim>\<open>no changes to commit\<close>, a non-empty output is
  success.  On the events: the commands started are a prefix of this order,
  \<^verbatim>\<open>StageAll\<close> succeeds exactly when a status query has returned a non-empty output
  without error, and it fails whenever the output of the status command is empty.
\<close>

theorem StageAll_outcome:
  assumes "StageAll p ops w = (res, w', ev)"
  shows "(\<forall>w1 r1 w2 r3 w3.
            clear_locks p ops w = (None, w1)
            \<and> exec_Command p w1 (workingDir ops) ''git'' [''add'', ''-A''] = (r1, w2)
            \<and> exit_err r1 = None
            \<and> exec_Command p w2 (workingDir ops) ''git'' status_args = (r3, w3)
            \<longrightarrow> w' = w3
              \<and> execs ev = [(workingDir ops, ''git'', [''add'', ''-A''], r1),
                            (workingDir ops, ''git'', status_args, r3)]
              \<and> res = (case exit_err r3 of
                         Some e \<Rightarrow> Some (''failed to check git status: '' @ e)
                       | None \<Rightarrow> if stdout r3 = [] then Some ''no changes to commit'' else None))
     \<and> (\<forall>e1 w1 x1.
            attempt p ops [''add'', ''-A''] w = (Some e1, w1, x1)
            \<longrightarrow> (\<forall>w2 r2 w3 r3 w4.
                   clear_locks p ops w1 = (None, w2)
                   \<and> exec_Command p w2 (workingDir ops) ''git'' [''add'', workingDir ops] = (r2, w3)
                   \<and> exit_err r2 = None
                   \<and> exec_Command p w3 (workingDir ops) ''git'' status_args = (r3, w4)
                   \<longrightarrow> w' = w4
                     \<and> execs ev = x1 @ [(workingDir ops, ''git'', [''add'', workingDir ops], r2),
                                         (workingDir ops, ''git'', status_args, r3)]
                     \<and> res = (case exit_err r3 of
                                Some e \<Rightarrow> Some (''failed to check git status: '' @ e)
                              | None \<Rightarrow> if stdout r3 = [] then Some ''no changes to commit''
                                        else None))
              \<and> (\<forall>e2 w2 x2.
                   attempt p ops [''add'', workingDir ops] w1 = (Some e2, w2, x2)
                   \<longrightarrow> res = Some (''failed to stage files: '' @ e2) \<and> w' = w2
                     \<and> execs ev = x1 @ x2))
     \<and> (map snd (commands ev) \<in>
           {[], [[''add'', ''-A'']], [[''add'', workingDir ops]],
            [[''add'', ''-A''], [''add'', workingDir ops]],
            [[''add'', ''-A''], status_args],
            [[''add'', workingDir ops], status_args],
            [[''add'', ''-A''], [''add'', workingDir ops], status_args]}
     \<and> (lock_failures ev = [] \<longrightarrow> take 1 (commands ev) = [(''git'', [''add'', ''-A''])])
     \<and> (lock_failures ev = [] \<and> take 1 (outcomes ev) = [([''add'', ''-A''], False)]
          \<longrightarrow> map fst (take 2 (outcomes ev)) = [[''add'', ''-A''], [''add'', workingDir ops]])
     \<and> (take 1 (outcomes ev) = [([''add'', ''-A''], True)]
          \<longrightarrow> map snd (commands ev) = [[''add'', ''-A''], status_args])
     \<and> (status_args \<in> set (map fst (outcomes ev))
          \<longleftrightarrow> (\<exists>(args, ok) \<in> set (outcomes ev). take 1 args = [''add''] \<and> ok))
     \<and> (res = None
          \<longleftrightarrow> (\<exists>(d, n, args, r) \<in> set (execs ev).
                 args = status_args \<and> exit_err r = None \<and> stdout r \<noteq> []))
     \<and> ((\<exists>(d, n, args, r) \<in> set (execs ev).
             args = status_args \<and> exit_err r = None \<and> stdout r = [])
          \<longrightarrow> res = Some ''no changes to commit'')
     \<and> ((\<exists>(d, n, args, r) \<in> set (execs ev). args = status_args \<and> stdout r = [])
          \<longrightarrow> res \<noteq> None))"
    (is "?first \<and> ?second \<and> ?events")
proof -
  have first: ?first
  proof (intro allI impI, elim conjE)
    fix w1 r1 w2 r3 w3
    assume cl: "clear_locks p ops w = (None, w1)"
      and ex: "exec_Command p w1 (workingDir ops) ''git'' [''add'', ''-A''] = (r1, w2)"
      and ok: "exit_err r1 = None"
      and st: "exec_Command p w2 (workingDir ops) ''git'' status_args = (r3, w3)"
    from attempt_ran [OF cl ex] ok
    have "attempt p ops [''add'', ''-A''] w
        = (None, w2, [(workingDir ops, ''git'', [''add'', ''-A''], r1)])"
      by simp
    from StageAll_first_succeeds [OF this] verifyStaged_status [OF st] assms
    show "w' = w3
              \<and> execs ev = [(workingDir ops, ''git'', [''add'', ''-A''], r1),
                            (workingDir ops, ''git'', status_args, r3)]
              \<and> res = (case exit_err r3 of
                         Some e \<Rightarrow> Some (''failed to check git status: '' @ e)
                       | None \<Rightarrow> if stdout r3 = [] then Some ''no changes to commit'' else None)"
      by simp
  qed
  have second: ?second
  proof (intro allI impI conjI; (elim conjE)?)
    fix e1 w1 x1 w2 r2 w3 r3 w4
    assume a: "attempt p ops [''add'', ''-A''] w = (Some e1, w1, x1)"
      and cl: "clear_locks p ops w1 = (None, w2)"
      and ex: "exec_Command p w2 (workingDir ops) ''git'' [''add'', workingDir ops] = (r2, w3)"
      and ok: "exit_err r2 = None"
      and st: "exec_Command p w3 (workingDir ops) ''git'' status_args = (r3, w4)"
    from attempt_ran [OF cl ex] ok
    have "attempt p ops [''add'', workingDir ops] w1
        = (None, w3, [(workingDir ops, ''git'', [''add'', workingDir ops], r2)])"
      by simp
    from StageAll_retry_succeeds [OF a this] verifyStaged_status [OF st] assms
    show "w' = w4"
      and "execs ev = x1 @ [(workingDir ops, ''git'', [''add'', workingDir ops], r2),
                                         (workingDir ops, ''git'', status_args, r3)]"
      and "res = (case exit_err r3 of
                                Some e \<Rightarrow> Some (''failed to check git status: '' @ e)
                              | None \<Rightarrow> if stdout r3 = [] then Some ''no changes to commit''
                                        else None)"
      by simp_all
  next
    fix e1 w1 x1 e2 w2 x2
    assume a: "attempt p ops [''add'', ''-A''] w = (Some e1, w1, x1)"
      and b: "attempt p ops [''add'', workingDir ops] w1 = (Some e2, w2, x2)"
    from StageAll_retry_fails [OF a b] assms
    show "res = Some (''failed to stage files: '' @ e2)" and "w' = w2" and "execs ev = x1 @ x2"
      by simp_all
  qed
  from assms have events: ?events
  proof (cases rule: StageAll_execs)
    case (staged w1 ev1 r1 w2 ev3)
    from staged(4) show ?thesis
    proof (cases rule: verifyStaged_execs)
      case (1 r)
      with staged show ?thesis
        by (simp add: commands_execs outcomes_execs split: option.splits)
    qed
  next
    case (retry_blocked res1 w1 ev1 err ev2)
    from retry_blocked(1) show ?thesis
    proof (cases rule: runCommand_execs)
      case (blocked err1)
      with retry_blocked show ?thesis by (simp add: commands_execs outcomes_execs)
    next
      case (ran w0 ev0 r1)
      with retry_blocked show ?thesis
        by (cases "exit_err r1") (simp_all add: commands_execs outcomes_execs)
    qed
  next
    case (retry_failed res1 w1 ev1 w2 ev2 r2 e)
    from retry_failed(1) show ?thesis
    proof (cases rule: runCommand_execs)
      case (blocked err1)
      with retry_failed show ?thesis by (simp add: commands_execs outcomes_execs)
    next
      case (ran w0 ev0 r1)
      with retry_failed show ?thesis
        by (cases "exit_err r1") (simp_all add: commands_execs outcomes_execs)
    qed
  next
    case (retry_staged res1 w1 ev1 w2 ev2 r2 w3 ev3)
    from retry_staged(6) obtain r where
      v: "res = (case exit_err r of Some e \<Rightarrow> Some (''failed to check git status: '' @ e)
              | None \<Rightarrow> if stdout r = [] then Some ''no changes to commit'' else None)"
        "execs ev3 = [(workingDir ops, ''git'', status_args, r)]" "lock_failures ev3 = []"
      by (cases rule: verifyStaged_execs) simp
    from retry_staged(1) show ?thesis
    proof (cases rule: runCommand_execs)
      case (blocked err1)
      with retry_staged v show ?thesis
        by (simp add: commands_execs outcomes_execs split: option.splits)
    next
      case (ran w0 ev0 r1)
      with retry_staged v show ?thesis
        by (cases "exit_err r1") (simp_all add: commands_execs outcomes_execs split: option.splits)
    qed
  qed
  show ?thesis by (rule conjI [OF first conjI [OF second events]])
qed

theorem StageAll_outcome_witness:
  "clear_locks (sim []) repo commit_rejected = (None, commit_rejected)
   \<and> exec_Command (sim []) commit_rejected ''/repo'' ''git'' [''add'', ''-A'']
       = (succeeded, commit_rejected)
   \<and> exec_Command (sim []) commit_rejected ''/repo'' ''git'' [''status'', ''--porcelain'']
       = (prints ''M  a.txt'', commit_rejected)
   \<and> ends (StageAll (sim []) repo commit_rejected) = (None, commit_rejected)
   \<and> exec_Command (sim []) plain ''/repo'' ''git'' [''status'', ''--porcelain'']
       = (succeeded, plain)
   \<and> ends (StageAll (sim []) repo plain) = (Some ''no changes to commit'', plain)
   \<and> execs (snd (snd (StageAll (sim []) repo plain)))
       = [(''/repo'', ''git'', [''add'', ''-A''], succeeded),
          (''/repo'', ''git'', [''status'', ''--porcelain''], succeeded)]
   \<and> attempt flaky repo [''add'', ''-A''] 0
       = (Some ''failed to remove lock file /repo/.git/index.lock: device or resource busy'', 1, [])
   \<and> clear_locks flaky repo 1 = (None, 2)
   \<and> ends (StageAll flaky repo 0) = (None, 2)
   \<and> execs (snd (snd (StageAll flaky repo 0)))
       = [(''/repo'', ''git'', [''add'', ''/repo''], succeeded),
          (''/repo'', ''git'', [''status'', ''--porcelain''], prints ''M  a.txt'')]"
proof -
  let ?S = "StageAll (sim []) repo commit_rejected"
  let ?T = "StageAll (sim []) repo plain"
  let ?F = "StageAll flaky repo 0"
  have s: "?S = (fst ?S, fst (snd ?S), snd (snd ?S))"
    and t: "?T = (fst ?T, fst (snd ?T), snd (snd ?T))"
    and f: "?F = (fst ?F, fst (snd ?F), snd (snd ?F))" by simp_all
  have cs: "clear_locks (sim []) repo commit_rejected = (None, commit_rejected)"
    and ct: "clear_locks (sim []) repo plain = (None, plain)"
    by (simp_all add: clear_locks_def remove_if_found_def commit_rejected_def plain_def sim_defs)
  have as: "exec_Command (sim []) commit_rejected (workingDir repo) ''git'' [''add'', ''-A'']
       = (succeeded, commit_rejected)"
    and ss: "exec_Command (sim []) commit_rejected (workingDir repo) ''git'' status_args
       = (prints ''M  a.txt'', commit_rejected)"
    by (simp_all add: commit_rejected_def plain_def sim_defs)
  have at: "exec_Command (sim []) plain (workingDir repo) ''git'' [''add'', ''-A'']
       = (succeeded, plain)"
    and st: "exec_Command (sim []) plain (workingDir repo) ''git'' status_args
       = (succeeded, plain)"
    by (simp_all add: plain_def sim_defs)
  have ok: "exit_err succeeded = None" by (simp add: succeeded_def)
  have af: "attempt flaky repo [''add'', ''-A''] 0
       = (Some ''failed to remove lock file /repo/.git/index.lock: device or resource busy'', 1, [])"
    by (simp add: attempt_def clear_locks_def remove_if_found_def flaky_def)
  have cf: "clear_locks flaky repo 1 = (None, 2)"
    by (simp add: clear_locks_def remove_if_found_def flaky_def)
  have df: "exec_Command flaky 2 (workingDir repo) ''git'' [''add'', workingDir repo]
       = (succeeded, 2)"
    and sf: "exec_Command flaky 2 (workingDir repo) ''git'' status_args = (prints ''M  a.txt'', 2)"
    by (simp_all add: flaky_def)
  note S = StageAll_outcome [OF s, THEN conjunct1, rule_format,
      OF conjI [OF cs conjI [OF as conjI [OF ok ss]]]]
  note T = StageAll_outcome [OF t, THEN conjunct1, rule_format,
      OF conjI [OF ct conjI [OF at conjI [OF ok st]]]]
  note F = StageAll_outcome [OF f, THEN conjunct2, THEN conjunct1, rule_format, OF af,
      THEN conjunct1, rule_format, OF conjI [OF cf conjI [OF df conjI [OF ok sf]]]]
  from S have 1: "ends ?S = (None, commit_rejected)" by (simp add: prints_def)
  from T have 2: "ends ?T = (Some ''no changes to commit'', plain)"
    and 3: "execs (snd (snd ?T))
       = [(''/repo'', ''git'', [''add'', ''-A''], succeeded),
          (''/repo'', ''git'', [''status'', ''--porcelain''], succeeded)]"
    by (simp_all add: succeeded_def)
  from F have 4: "ends ?F = (None, 2)"
    and 5: "execs (snd (snd ?F))
       = [(''/repo'', ''git'', [''add'', ''/repo''], succeeded),
          (''/repo'', ''git'', [''status'', ''--porcelain''], prints ''M  a.txt'')]"
    by (simp_all add: prints_def)
  from cs as ss st af cf 1 2 3 4 5 show ?thesis by simp
qed

section \<open>Stale locks\<close>

text \<open>
  Claim C4, as amended.  Every \<^verbatim>\<open>git\<close> command that goes through
  \<^verbatim>\<open>runCommand\<close> (\<^verbatim>\<open>init\<close>, \<^verbatim>\<open>remote add\<close>, \<^verbatim>\<open>add\<close>, \<^verbatim>\<open>commit\<close>, \<^verbatim>\<open>push\<close>) is
  preceded by a check of the two lock files, \<^verbatim>\<open>.git/index.lock\<close> then
  \<^verbatim>\<open>.git/HEAD.lock\<close>: each one found is removed, and the command is started in the
  world that the removals leave, where, on a platform whose successful removal leaves
  the file not found and creates no other file, neither lock file is found.  When a
  removal fails the command is not started and the attempt returns the error of the
  cleanup, which names the file.  \<^verbatim>\<open>Commit\<close>, \<^verbatim>\<open>Push\<close> and the initialization of
  \<^verbatim>\<open>EnsureGitSetup\<close> then fail with that error under their own prefix, having started
  no command.  \<^verbatim>\<open>StageAll\<close> takes it as the failure of its first attempt and goes on
  to its second, with a check of its own: it fails with the error of a cleanup only
  when the second check fails too.  In the events of the four operations every such
  command comes directly after a finished check of both files.
\<close>

theorem locks_cleaned_before_mutating_commands:
  "lockFiles p ops = [filepath_Join p [workingDir ops, ''.git'', ''index.lock''],
                       filepath_Join p [workingDir ops, ''.git'', ''HEAD.lock'']]
   \<and> ends (cleanupLocks p ops w) = clear_locks p ops w
   \<and> ((\<forall>v f v'. os_Remove p v f = (None, v') \<longrightarrow> os_Stat p v' f \<noteq> StatOk)
        \<and> (\<forall>v f g. os_Stat p v g \<noteq> StatOk \<longrightarrow> os_Stat p (snd (os_Remove p v f)) g \<noteq> StatOk)
        \<longrightarrow> (\<forall>w1. clear_locks p ops w = (None, w1)
               \<longrightarrow> (\<forall>f \<in> set (lockFiles p ops). os_Stat p w1 f \<noteq> StatOk)))
   \<and> (fst (runCommand p ops ''git'' args w), fst (snd (runCommand p ops ''git'' args w)),
       execs (snd (snd (runCommand p ops ''git'' args w)))) = attempt p ops args w
   \<and> (\<forall>w1 r w2. clear_locks p ops w = (None, w1)
          \<and> exec_Command p w1 (workingDir ops) ''git'' args = (r, w2)
        \<longrightarrow> attempt p ops args w
              = (map_option (\<lambda>e. e @ '': '' @ combined r) (exit_err r), w2,
                 [(workingDir ops, ''git'', args, r)]))
   \<and> (fst (Commit p ops message w), fst (snd (Commit p ops message w)),
       execs (snd (snd (Commit p ops message w))))
      = (map_option (\<lambda>e. ''failed to commit: '' @ e)
           (fst (attempt p ops [''commit'', ''-m'', message] w)),
         snd (attempt p ops [''commit'', ''-m'', message] w))
   \<and> (fst (Push p ops remote branch w), fst (snd (Push p ops remote branch w)),
       execs (snd (snd (Push p ops remote branch w))))
      = (map_option (\<lambda>e. ''failed to push: '' @ e)
           (fst (attempt p ops [''push'', ''-u'', if remote = [] then ''origin'' else remote,
                                  if branch = [] then ''main'' else branch] w)),
         snd (attempt p ops [''push'', ''-u'', if remote = [] then ''origin'' else remote,
                              if branch = [] then ''main'' else branch] w))
   \<and> (\<forall>r1 w1 x1. attempt p ops [''add'', ''-A''] w = (r1, w1, x1) \<longrightarrow>
         (r1 = None \<longrightarrow>
            (\<forall>r3 w3. exec_Command p w1 (workingDir ops) ''git'' status_args = (r3, w3) \<longrightarrow>
               fst (snd (StageAll p ops w)) = w3
               \<and> execs (snd (snd (StageAll p ops w)))
                   = x1 @ [(workingDir ops, ''git'', status_args, r3)]))
         \<and> (r1 \<noteq> None \<longrightarrow>
            (\<forall>r2 w2 x2. attempt p ops [''add'', workingDir ops] w1 = (r2, w2, x2) \<longrightarrow>
               (r2 = None \<longrightarrow>
                  (\<forall>r3 w3. exec_Command p w2 (workingDir ops) ''git'' status_args = (r3, w3) \<longrightarrow>
                     fst (snd (StageAll p ops w)) = w3
                     \<and> execs (snd (snd (StageAll p ops w)))
                         = x1 @ x2 @ [(workingDir ops, ''git'', status_args, r3)]))
               \<and> (\<forall>e2. r2 = Some e2 \<longrightarrow>
                    ends (StageAll p ops w) = (Some (''failed to stage files: '' @ e2), w2)
                    \<and> execs (snd (snd (StageAll p ops w))) = x1 @ x2))))
   \<and> (os_Stat p w (gitDir p ops) = StatNotExist \<longrightarrow>
        (\<forall>e w1 x. attempt p ops [''init''] w = (Some e, w1, x) \<longrightarrow>
           ends (EnsureGitSetup p ops repoName w)
             = (Some (''failed to initialize git repository: '' @ e), w1)))
   \<and> (\<forall>v rc w1 rg w2.
         repository_ready p ops w = Some v
         \<and> exec_Command p v (workingDir ops) ''git'' (config_args p) = (rc, w1)
         \<and> exit_err rc = None
         \<and> exec_Command p w1 (workingDir ops) ''git'' [''remote'', ''get-url'', ''origin''] = (rg, w2)
         \<and> exit_err rg \<noteq> None
         \<longrightarrow> ends (EnsureGitSetup p ops repoName w)
               = (map_option (\<lambda>e. ''failed to add remote origin: '' @ e)
                    (fst (attempt p ops (add_args p repoName) w2)),
                  fst (snd (attempt p ops (add_args p repoName) w2))))
   \<and> (\<forall>err w1. clear_locks p ops w = (Some err, w1) \<longrightarrow>
         attempt p ops args w = (Some err, w1, [])
         \<and> (\<exists>f \<in> set (lockFiles p ops). \<exists>e.
               err = ''failed to remove lock file '' @ f @ '': '' @ e)
         \<and> ends (Commit p ops message w) = (Some (''failed to commit: '' @ err), w1)
         \<and> execs (snd (snd (Commit p ops message w))) = []
         \<and> ends (Push p ops remote branch w) = (Some (''failed to push: '' @ err), w1)
         \<and> execs (snd (snd (Push p ops remote branch w))) = []
         \<and> (os_Stat p w (gitDir p ops) = StatNotExist \<longrightarrow>
              ends (EnsureGitSetup p ops repoName w)
                = (Some (''failed to initialize git repository: '' @ err), w1)
              \<and> execs (snd (snd (EnsureGitSetup p ops repoName w))) = [])
         \<and> (\<forall>e2 w2. clear_locks p ops w1 = (Some e2, w2) \<longrightarrow>
              ends (StageAll p ops w) = (Some (''failed to stage files: '' @ e2), w2)
              \<and> execs (snd (snd (StageAll p ops w))) = []))
   \<and> guarded (lockFiles p ops) [] (snd (snd (EnsureGitSetup p ops repoName w)))
   \<and> guarded (lockFiles p ops) [] (snd (snd (StageAll p ops w)))
   \<and> guarded (lockFiles p ops) [] (snd (snd (Commit p ops message w)))
   \<and> guarded (lockFiles p ops) [] (snd (snd (Push p ops remote branch w)))"
proof -
  let ?S = "StageAll p ops w"
  let ?E = "EnsureGitSetup p ops repoName w"
  have files: "lockFiles p ops = [filepath_Join p [workingDir ops, ''.git'', ''index.lock''],
                       filepath_Join p [workingDir ops, ''.git'', ''HEAD.lock'']]"
    by (simp add: lockFiles_def)
  have removed: "(\<forall>v f v'. os_Remove p v f = (None, v') \<longrightarrow> os_Stat p v' f \<noteq> StatOk)
        \<and> (\<forall>v f g. os_Stat p v g \<noteq> StatOk \<longrightarrow> os_Stat p (snd (os_Remove p v f)) g \<noteq> StatOk)
        \<longrightarrow> (\<forall>w1. clear_locks p ops w = (None, w1)
               \<longrightarrow> (\<forall>f \<in> set (lockFiles p ops). os_Stat p w1 f \<noteq> StatOk))"
    using clear_locks_removes [of p ops w] by blast
  have ran: "\<forall>w1 r w2. clear_locks p ops w = (None, w1)
          \<and> exec_Command p w1 (workingDir ops) ''git'' args = (r, w2)
        \<longrightarrow> attempt p ops args w
              = (map_option (\<lambda>e. e @ '': '' @ combined r) (exit_err r), w2,
                 [(workingDir ops, ''git'', args, r)])"
    using attempt_ran [of p ops w _ args] by blast
  have stage: "\<forall>r1 w1 x1. attempt p ops [''add'', ''-A''] w = (r1, w1, x1) \<longrightarrow>
         (r1 = None \<longrightarrow>
            (\<forall>r3 w3. exec_Command p w1 (workingDir ops) ''git'' status_args = (r3, w3) \<longrightarrow>
               fst (snd ?S) = w3
               \<and> execs (snd (snd ?S)) = x1 @ [(workingDir ops, ''git'', status_args, r3)]))
         \<and> (r1 \<noteq> None \<longrightarrow>
            (\<forall>r2 w2 x2. attempt p ops [''add'', workingDir ops] w1 = (r2, w2, x2) \<longrightarrow>
               (r2 = None \<longrightarrow>
                  (\<forall>r3 w3. exec_Command p w2 (workingDir ops) ''git'' status_args = (r3, w3) \<longrightarrow>
                     fst (snd ?S) = w3
                     \<and> execs (snd (snd ?S))
                         = x1 @ x2 @ [(workingDir ops, ''git'', status_args, r3)]))
               \<and> (\<forall>e2. r2 = Some e2 \<longrightarrow>
                    ends ?S = (Some (''failed to stage files: '' @ e2), w2)
                    \<and> execs (snd (snd ?S)) = x1 @ x2)))"
  proof (intro allI impI conjI)
    fix r1 w1 x1 r3 w3
    assume "attempt p ops [''add'', ''-A''] w = (r1, w1, x1)" and "r1 = None"
      and st: "exec_Command p w1 (workingDir ops) ''git'' status_args = (r3, w3)"
    then have "attempt p ops [''add'', ''-A''] w = (None, w1, x1)" by simp
    from StageAll_first_succeeds [OF this] verifyStaged_status [OF st]
    show "fst (snd ?S) = w3"
      and "execs (snd (snd ?S)) = x1 @ [(workingDir ops, ''git'', status_args, r3)]"
      by simp_all
  next
    fix r1 w1 x1 r2 w2 x2 r3 w3
    assume "attempt p ops [''add'', ''-A''] w = (r1, w1, x1)" and "r1 \<noteq> None"
      and "attempt p ops [''add'', workingDir ops] w1 = (r2, w2, x2)" and "r2 = None"
      and st: "exec_Command p w2 (workingDir ops) ''git'' status_args = (r3, w3)"
    then obtain e1 where "attempt p ops [''add'', ''-A''] w = (Some e1, w1, x1)"
      and "attempt p ops [''add'', workingDir ops] w1 = (None, w2, x2)"
      by (cases r1) simp_all
    from StageAll_retry_succeeds [OF this] verifyStaged_status [OF st]
    show "fst (snd ?S) = w3"
      and "execs (snd (snd ?S)) = x1 @ x2 @ [(workingDir ops, ''git'', status_args, r3)]"
      by simp_all
  next
    fix r1 w1 x1 r2 w2 x2 e2
    assume "attempt p ops [''add'', ''-A''] w = (r1, w1, x1)" and "r1 \<noteq> None"
      and "attempt p ops [''add'', workingDir ops] w1 = (r2, w2, x2)" and "r2 = Some e2"
    then obtain e1 where "attempt p ops [''add'', ''-A''] w = (Some e1, w1, x1)"
      and "attempt p ops [''add'', workingDir ops] w1 = (Some e2, w2, x2)"
      by (cases r1) simp_all
    from StageAll_retry_fails [OF this]
    show "ends ?S = (Some (''failed to stage files: '' @ e2), w2)"
      and "execs (snd (snd ?S)) = x1 @ x2"
      by simp_all
  qed
  have init: "ends ?E = (Some (''failed to initialize git repository: '' @ e), w1)
      \<and> execs (snd (snd ?E)) = x"
    if "os_Stat p w (gitDir p ops) = StatNotExist" and "attempt p ops [''init''] w = (Some e, w1, x)"
    for e w1 x
  proof -
    from that(2) obtain ev where "runCommand p ops ''git'' [''init''] w = (Some e, w1, ev)"
      and "execs ev = x"
      by (rule runCommand_attemptD)
    with that(1) show ?thesis by (simp add: EnsureGitSetup_def)
  qed
  then have init': "os_Stat p w (gitDir p ops) = StatNotExist \<longrightarrow>
        (\<forall>e w1 x. attempt p ops [''init''] w = (Some e, w1, x) \<longrightarrow>
           ends ?E = (Some (''failed to initialize git repository: '' @ e), w1))"
    by blast
  have remote: "\<forall>v rc w1 rg w2.
         repository_ready p ops w = Some v
         \<and> exec_Command p v (workingDir ops) ''git'' (config_args p) = (rc, w1)
         \<and> exit_err rc = None
         \<and> exec_Command p w1 (workingDir ops) ''git'' [''remote'', ''get-url'', ''origin''] = (rg, w2)
         \<and> exit_err rg \<noteq> None
         \<longrightarrow> ends ?E
               = (map_option (\<lambda>e. ''failed to add remote origin: '' @ e)
                    (fst (attempt p ops (add_args p repoName) w2)),
                  fst (snd (attempt p ops (add_args p repoName) w2)))"
  proof (intro allI impI, elim conjE)
    fix v rc w1 rg w2
    assume ready: "repository_ready p ops w = Some v"
      and c: "exec_Command p v (workingDir ops) ''git'' (config_args p) = (rc, w1)"
        "exit_err rc = None"
      and g: "exec_Command p w1 (workingDir ops) ''git'' [''remote'', ''get-url'', ''origin''] = (rg, w2)"
        "exit_err rg \<noteq> None"
    from g(2) obtain eg where "exit_err rg = Some eg" by (cases "exit_err rg") simp_all
    from ensureIdentityAndRemote_origin_missing [OF c g(1) this, of repoName]
      EnsureGitSetup_ready [OF ready, of repoName]
    show "ends ?E
               = (map_option (\<lambda>e. ''failed to add remote origin: '' @ e)
                    (fst (attempt p ops (add_args p repoName) w2)),
                  fst (snd (attempt p ops (add_args p repoName) w2)))"
      by simp
  qed
  have blocked: "\<forall>err w1. clear_locks p ops w = (Some err, w1) \<longrightarrow>
         attempt p ops args w = (Some err, w1, [])
         \<and> (\<exists>f \<in> set (lockFiles p ops). \<exists>e.
               err = ''failed to remove lock file '' @ f @ '': '' @ e)
         \<and> ends (Commit p ops message w) = (Some (''failed to commit: '' @ err), w1)
         \<and> execs (snd (snd (Commit p ops message w))) = []
         \<and> ends (Push p ops remote branch w) = (Some (''failed to push: '' @ err), w1)
         \<and> execs (snd (snd (Push p ops remote branch w))) = []
         \<and> (os_Stat p w (gitDir p ops) = StatNotExist \<longrightarrow>
              ends ?E = (Some (''failed to initialize git repository: '' @ err), w1)
              \<and> execs (snd (snd ?E)) = [])
         \<and> (\<forall>e2 w2. clear_locks p ops w1 = (Some e2, w2) \<longrightarrow>
              ends ?S = (Some (''failed to stage files: '' @ e2), w2)
              \<and> execs (snd (snd ?S)) = [])"
  proof (intro allI impI)
    fix err w1
    assume cl: "clear_locks p ops w = (Some err, w1)"
    note a = attempt_blocked [OF cl]
    have 1: "attempt p ops args w = (Some err, w1, [])" by (rule a)
    have 2: "\<exists>f \<in> set (lockFiles p ops). \<exists>e.
               err = ''failed to remove lock file '' @ f @ '': '' @ e"
      by (rule clear_locks_error [OF cl])
    from Commit_attempt [of p ops message w] a [of "[''commit'', ''-m'', message]"]
    have 3: "ends (Commit p ops message w) = (Some (''failed to commit: '' @ err), w1)"
      and 4: "execs (snd (snd (Commit p ops message w))) = []"
      by simp_all
    from Push_attempt [of p ops remote branch w]
      a [of "[''push'', ''-u'', if remote = [] then ''origin'' else remote,
              if branch = [] then ''main'' else branch]"]
    have 5: "ends (Push p ops remote branch w) = (Some (''failed to push: '' @ err), w1)"
      and 6: "execs (snd (snd (Push p ops remote branch w))) = []"
      by simp_all
    from init [OF _ a [of "[''init'']"]]
    have 7: "os_Stat p w (gitDir p ops) = StatNotExist \<longrightarrow>
              ends ?E = (Some (''failed to initialize git repository: '' @ err), w1)
              \<and> execs (snd (snd ?E)) = []"
      by blast
    have 8: "\<forall>e2 w2. clear_locks p ops w1 = (Some e2, w2) \<longrightarrow>
              ends ?S = (Some (''failed to stage files: '' @ e2), w2)
              \<and> execs (snd (snd ?S)) = []"
    proof (intro allI impI)
      fix e2 w2
      assume "clear_locks p ops w1 = (Some e2, w2)"
      from StageAll_retry_fails [OF a attempt_blocked [OF this]]
      show "ends ?S = (Some (''failed to stage files: '' @ e2), w2)
              \<and> execs (snd (snd ?S)) = []"
        by simp
    qed
    from 1 2 3 4 5 6 7 8
    show "attempt p ops args w = (Some err, w1, [])
         \<and> (\<exists>f \<in> set (lockFiles p ops). \<exists>e.
               err = ''failed to remove lock file '' @ f @ '': '' @ e)
         \<and> ends (Commit p ops message w) = (Some (''failed to commit: '' @ err), w1)
         \<and> execs (snd (snd (Commit p ops message w))) = []
         \<and> ends (Push p ops remote branch w) = (Some (''failed to push: '' @ err), w1)
         \<and> execs (snd (snd (Push p ops remote branch w))) = []
         \<and> (os_Stat p w (gitDir p ops) = StatNotExist \<longrightarrow>
              ends ?E = (Some (''failed to initialize git repository: '' @ err), w1)
              \<and> execs (snd (snd ?E)) = [])
         \<and> (\<forall>e2 w2. clear_locks p ops w1 = (Some e2, w2) \<longrightarrow>
              ends ?S = (Some (''failed to stage files: '' @ e2), w2)
              \<and> execs (snd (snd ?S)) = [])"
      by (intro conjI)
  qed
  from files cleanupLocks_clear_locks [of p ops w] removed runCommand_attempt [of p ops args w]
    ran Commit_attempt [of p ops message w] Push_attempt [of p ops remote branch w]
    stage init' remote blocked
    EnsureGitSetup_guarded [of p ops "[]" repoName w] StageAll_guarded [of p ops "[]" w]
    Commit_guarded [of p ops "[]" message w] Push_guarded [of p ops "[]" remote branch w]
  show ?thesis by (intro conjI)
qed

theorem locks_cleaned_before_mutating_commands_witness:
  "os_Stat (sim []) stale_lock ''/repo/.git/index.lock'' = StatOk
   \<and> clear_locks (sim []) repo stale_lock = (None, plain)
   \<and> os_Stat (sim []) plain ''/repo/.git/index.lock'' \<noteq> StatOk
   \<and> os_Stat (sim []) plain ''/repo/.git/HEAD.lock'' \<noteq> StatOk
   \<and> attempt (sim []) repo [''commit'', ''-m'', ''msg''] stale_lock
       = (None, plain, [(''/repo'', ''git'', [''commit'', ''-m'', ''msg''], succeeded)])
   \<and> ends (Commit (sim []) repo ''msg'' stale_lock) = (None, plain)
   \<and> guarded (lockFiles (sim []) repo) [] (snd (snd (Commit (sim []) repo ''msg'' stale_lock)))
   \<and> clear_locks (sim []) repo stuck_lock
       = (Some ''failed to remove lock file /repo/.git/index.lock: operation not permitted'',
          stuck_lock)
   \<and> attempt (sim []) repo [''push'', ''-u'', ''origin'', ''main''] stuck_lock
       = (Some ''failed to remove lock file /repo/.git/index.lock: operation not permitted'',
          stuck_lock, [])
   \<and> ends (Commit (sim []) repo ''msg'' stuck_lock)
       = (Some ''failed to commit: failed to remove lock file /repo/.git/index.lock: operation not permitted'',
          stuck_lock)
   \<and> ends (StageAll (sim []) repo stuck_lock)
       = (Some ''failed to stage files: failed to remove lock file /repo/.git/index.lock: operation not permitted'',
          stuck_lock)
   \<and> execs (snd (snd (StageAll (sim []) repo stuck_lock))) = []"
proof -
  have gone: "\<forall>v f v'. os_Remove (sim []) v f = (None, v') \<longrightarrow> os_Stat (sim []) v' f \<noteq> StatOk"
    by (auto simp: sim_defs split: if_splits)
  have keeps: "\<forall>v f g. os_Stat (sim []) v g \<noteq> StatOk
      \<longrightarrow> os_Stat (sim []) (snd (os_Remove (sim []) v f)) g \<noteq> StatOk"
    by (auto simp: sim_defs split: if_splits)
  have found: "os_Stat (sim []) stale_lock ''/repo/.git/index.lock'' = StatOk"
    by (simp add: stale_lock_def plain_def sim_defs)
  have cl: "clear_locks (sim []) repo stale_lock = (None, plain)"
    by (simp add: clear_locks_def remove_if_found_def stale_lock_def plain_def sim_defs)
  have ex: "exec_Command (sim []) plain (workingDir repo) ''git'' [''commit'', ''-m'', ''msg'']
      = (succeeded, plain)"
    by (simp add: plain_def sim_defs)
  have st: "clear_locks (sim []) repo stuck_lock
       = (Some ''failed to remove lock file /repo/.git/index.lock: operation not permitted'',
          stuck_lock)"
    by (simp add: clear_locks_def remove_if_found_def stuck_lock_def plain_def sim_defs)
  note stale = locks_cleaned_before_mutating_commands
    [where p = "sim []" and ops = repo and repoName = "[]" and w = stale_lock
       and message = "''msg''" and remote = "[]" and branch = "[]"
       and args = "[''commit'', ''-m'', ''msg'']"]
  note stuck = locks_cleaned_before_mutating_commands
    [where p = "sim []" and ops = repo and repoName = "[]" and w = stuck_lock
       and message = "''msg''" and remote = "[]" and branch = "[]"
       and args = "[''push'', ''-u'', ''origin'', ''main'']"]
  note removed = stale [THEN conjunct2, THEN conjunct2, THEN conjunct1, rule_format,
      OF conjI [OF gone keeps] cl]
  have i: "os_Stat (sim []) plain ''/repo/.git/index.lock'' \<noteq> StatOk"
    and h: "os_Stat (sim []) plain ''/repo/.git/HEAD.lock'' \<noteq> StatOk"
    by (rule removed, simp add: lockFiles_def)+
  note ran = stale [THEN conjunct2, THEN conjunct2, THEN conjunct2, THEN conjunct2,
      THEN conjunct1, rule_format, OF conjI [OF cl ex]]
  then have att: "attempt (sim []) repo [''commit'', ''-m'', ''msg''] stale_lock
       = (None, plain, [(''/repo'', ''git'', [''commit'', ''-m'', ''msg''], succeeded)])"
    by (simp add: succeeded_def)
  note committed = stale [THEN conjunct2, THEN conjunct2, THEN conjunct2, THEN conjunct2,
      THEN conjunct2, THEN conjunct1]
  with att have commit: "ends (Commit (sim []) repo ''msg'' stale_lock) = (None, plain)"
    by simp
  note g = stale [THEN conjunct2, THEN conjunct2, THEN conjunct2, THEN conjunct2,
      THEN conjunct2, THEN conjunct2, THEN conjunct2, THEN conjunct2, THEN conjunct2,
      THEN conjunct2, THEN conjunct2, THEN conjunct2, THEN conjunct2, THEN conjunct1]
  note blocked = stuck [THEN conjunct2, THEN conjunct2, THEN conjunct2, THEN conjunct2,
      THEN conjunct2, THEN conjunct2, THEN conjunct2, THEN conjunct2, THEN conjunct2,
      THEN conjunct2, THEN conjunct1, rule_format, OF st]
  note b = blocked [THEN conjunct1]
  note c = blocked [THEN conjunct2, THEN conjunct2, THEN conjunct1]
  note s = blocked [THEN conjunct2, THEN conjunct2, THEN conjunct2, THEN conjunct2,
      THEN conjunct2, THEN conjunct2, THEN conjunct2, rule_format, OF st]
  from found cl i h att commit g st b c s show ?thesis
    by simp
qed

text \<open>
  Claim C4 as stated fails for \<^verbatim>\<open>StageAll\<close>.  On the platform where only the first
  removal fails, the check before \<^verbatim>\<open>git add -A\<close> fails and that command is not
  started, yet \<^verbatim>\<open>StageAll\<close> goes on to \<^verbatim>\<open>git add <dir>\<close>, whose own check passes,
  and returns success: the removal of an existing lock file has failed and the
  operation has not.
\<close>

theorem StageAll_succeeds_after_failed_lock_removal:
  "fst (cleanupLocks flaky repo 0)
     = Some ''failed to remove lock file /repo/.git/index.lock: device or resource busy''
   \<and> fst (runCommand flaky repo ''git'' [''add'', ''-A''] 0)
     = Some ''failed to remove lock file /repo/.git/index.lock: device or resource busy''
   \<and> fst (StageAll flaky repo 0) = None
   \<and> lock_failures (snd (snd (StageAll flaky repo 0))) = [''/repo/.git/index.lock'']
   \<and> commands (snd (snd (StageAll flaky repo 0)))
       = [(''git'', [''add'', ''/repo'']), (''git'', [''status'', ''--porcelain''])]"
  by (simp add: run_defs flaky_def prints_def succeeded_def)

section \<open>Errors and the output of a failed command\<close>




end
